theory Spec2Isabelle
  imports Main "HOL-Library.Word"
begin

unbundle bit_operations_syntax

section \<open>The chat widget of the robotics textbook: session store, query client, controller\<close>

text \<open>
  The three TypeScript modules of the chat widget are embedded function by function:
  \<^item> \<open>SessionManager\<close> (session and conversation persistence in \<open>localStorage\<close>),
  \<^item> \<open>ChatAPI\<close> (the two query calls and their error classification),
  \<^item> \<open>ChatWidget\<close> (the React component: its state, its event handlers, its send cycle).

  The code runs on a JavaScript platform. What the platform supplies (values, \<open>Date\<close>,
  \<open>JSON\<close>, \<open>localStorage\<close>, \<open>Math.random\<close>, \<open>fetch\<close>) is written out first, each piece to the
  extent the three modules use it. What is thrown is a value of type \<open>js_error\<close>, and a
  computation that may throw returns \<open>js_error + 'a\<close>.
\<close>

subsection \<open>JavaScript values and errors\<close>

datatype err_name =
  Error | TypeError | RangeError | SyntaxError | ReferenceError | SecurityError | QuotaExceededError

text \<open>
  A \<open>Date\<close> object holds a time value, milliseconds since the epoch, or \<open>NaN\<close>
  (an "Invalid Date").
\<close>

datatype jsdate = TimeValue int | Invalid_Date

text \<open>
  Values: the JSON shapes, \<open>undefined\<close> and \<open>Date\<close> objects. An object is the list of its
  own properties in insertion order. Numbers are integers: the modules carry numbers
  around and add whole milliseconds, nothing else.
\<close>

datatype jsval =
    JUndefined
  | JNull
  | JBool bool
  | JNum int
  | JStr string
  | JDate jsdate
  | JArr "jsval list"
  | JObj "(string \<times> jsval) list"

text \<open>What a \<open>throw\<close> or a rejected promise carries: an error object, with its constructor's
  name and its \<open>message\<close>, or any other value.\<close>

datatype js_error = Thrown err_name string | ThrownValue jsval

type_synonym 'a outcome = "js_error + 'a"

fun truthy :: "jsval \<Rightarrow> bool" where
  "truthy JUndefined = False"
| "truthy JNull = False"
| "truthy (JBool b) = b"
| "truthy (JNum n) = (n \<noteq> 0)"
| "truthy (JStr s) = (s \<noteq> [])"
| "truthy (JDate d) = True"
| "truthy (JArr xs) = True"
| "truthy (JObj kvs) = True"

subsection \<open>Decimal digits\<close>

definition digit_char :: "nat \<Rightarrow> char" where
  "digit_char n = ''0123456789'' ! (n mod 10)"

fun show_nat :: "nat \<Rightarrow> string" where
  "show_nat n = (if n < 10 then [digit_char n] else show_nat (n div 10) @ [digit_char (n mod 10)])"

declare show_nat.simps [simp del]

definition show_int :: "int \<Rightarrow> string" where
  "show_int i = (if i < 0 then CHR ''-'' # show_nat (nat (- i)) else show_nat (nat i))"

text \<open>\<open>pad w n\<close>: the last \<open>w\<close> decimal digits of \<open>n\<close>, zero-filled (\<open>padStart(w, '0')\<close> of a
  number below \<open>10 ^ w\<close>).\<close>

fun pad :: "nat \<Rightarrow> nat \<Rightarrow> string" where
  "pad 0 n = []"
| "pad (Suc w) n = pad w (n div 10) @ [digit_char (n mod 10)]"

definition digit_val :: "char \<Rightarrow> nat option" where
  "digit_val c =
     (let code = (of_char c :: nat) in if 48 \<le> code \<and> code \<le> 57 then Some (code - 48) else None)"

text \<open>\<open>read_digits acc s\<close>: the number written by the digit string \<open>s\<close>, after the digits
  already read into \<open>acc\<close>; \<open>None\<close> when a character is not a digit.\<close>

fun read_digits :: "nat \<Rightarrow> string \<Rightarrow> nat option" where
  "read_digits acc [] = Some acc"
| "read_digits acc (c # cs) =
     (case digit_val c of None \<Rightarrow> None | Some d \<Rightarrow> read_digits (10 * acc + d) cs)"

subsection \<open>Dates: time values and the ISO-8601 text of \<open>toISOString\<close>\<close>

definition msPerDay :: int where
  "msPerDay = 86400000"

definition max_time :: int where
  "max_time = 8640000000000000"

definition TimeClip :: "int \<Rightarrow> jsdate" where
  "TimeClip t = (if \<bar>t\<bar> \<le> max_time then TimeValue t else Invalid_Date)"

definition leap :: "int \<Rightarrow> bool" where
  "leap y = ((y mod 4 = 0 \<and> y mod 100 \<noteq> 0) \<or> y mod 400 = 0)"

definition DaysInYear :: "int \<Rightarrow> int" where
  "DaysInYear y = (if leap y then 366 else 365)"

text \<open>The year of a day number counted from 1 January 1970, and the day within that year:
  whole years are taken off going forward from 1970, or added going backward.\<close>

function year_up :: "int \<Rightarrow> int \<Rightarrow> int \<times> int" where
  "year_up y d = (if d < DaysInYear y then (y, d) else year_up (y + 1) (d - DaysInYear y))"
  by pat_completeness auto
termination
  by (relation "measure (\<lambda>(y, d). nat d)") (auto simp: DaysInYear_def split: if_splits)

declare year_up.simps [simp del]

function year_down :: "int \<Rightarrow> int \<Rightarrow> int \<times> int" where
  "year_down y d = (if 0 \<le> d then (y, d) else year_down (y - 1) (d + DaysInYear (y - 1)))"
  by pat_completeness auto
termination
  by (relation "measure (\<lambda>(y, d). nat (- d))") (auto simp: DaysInYear_def split: if_splits)

declare year_down.simps [simp del]

definition YearFromDay :: "int \<Rightarrow> int \<times> int" where
  "YearFromDay d = (if 0 \<le> d then year_up 1970 d else year_down 1970 d)"

definition month_lengths :: "bool \<Rightarrow> int list" where
  "month_lengths lp = [31, if lp then 29 else 28, 31, 30, 31, 30, 31, 31, 30, 31, 30, 31]"

text \<open>The month (from 0) of a day within the year, and the day (from 0) within that month.\<close>

fun month_from :: "int list \<Rightarrow> nat \<Rightarrow> int \<Rightarrow> nat \<times> int" where
  "month_from [] m d = (m, d)"
| "month_from (l # ls) m d = (if d < l then (m, d) else month_from ls (Suc m) (d - l))"

definition MonthFromDay :: "bool \<Rightarrow> int \<Rightarrow> nat \<times> int" where
  "MonthFromDay lp d = month_from (month_lengths lp) 0 d"

text \<open>The other way round: the day number of 1 January of a year, and of a month's first
  day within its year.\<close>

primrec days_up :: "nat \<Rightarrow> int" where
  "days_up 0 = 0"
| "days_up (Suc n) = days_up n + DaysInYear (1970 + int n)"

primrec days_down :: "nat \<Rightarrow> int" where
  "days_down 0 = 0"
| "days_down (Suc n) = days_down n + DaysInYear (1970 - int (Suc n))"

definition DayFromYear :: "int \<Rightarrow> int" where
  "DayFromYear y = (if 1970 \<le> y then days_up (nat (y - 1970)) else - days_down (nat (1970 - y)))"

definition DayWithinYear :: "bool \<Rightarrow> nat \<Rightarrow> int" where
  "DayWithinYear lp m = sum_list (take m (month_lengths lp))"

definition year_chars :: "int \<Rightarrow> string" where
  "year_chars y =
     (if 0 \<le> y \<and> y \<le> 9999 then pad 4 (nat y)
      else (if y < 0 then CHR ''-'' else CHR ''+'') # pad 6 (nat \<bar>y\<bar>))"

text \<open>\<open>Date.prototype.toISOString\<close> of a time value: \<open>YYYY-MM-DDTHH:mm:ss.sssZ\<close>, the year
  with a sign and six digits outside 0..9999.\<close>

definition toISOString :: "int \<Rightarrow> string" where
  "toISOString t =
     (let day = t div msPerDay; tod = t mod msPerDay;
          (y, doy) = YearFromDay day;
          (m, d) = MonthFromDay (leap y) doy
      in year_chars y @ ''-'' @ pad 2 (m + 1) @ ''-'' @ pad 2 (nat d + 1) @ ''T''
         @ pad 2 (nat (tod div 3600000)) @ '':'' @ pad 2 (nat (tod div 60000 mod 60)) @ '':''
         @ pad 2 (nat (tod div 1000 mod 60)) @ ''.'' @ pad 3 (nat (tod mod 1000)) @ ''Z'')"

text \<open>The year field of a date text and what follows it.\<close>

definition read_year :: "string \<Rightarrow> (int \<times> string) option" where
  "read_year s =
     (case s of
        [] \<Rightarrow> None
      | c # cs \<Rightarrow>
          if c = CHR ''+'' \<or> c = CHR ''-'' then
            (case read_digits 0 (take 6 cs) of
               None \<Rightarrow> None
             | Some n \<Rightarrow>
                 if length cs < 6 \<or> (c = CHR ''-'' \<and> n = 0) then None
                 else Some (if c = CHR ''-'' then - int n else int n, drop 6 cs))
          else
            (case read_digits 0 (take 4 s) of
               None \<Rightarrow> None
             | Some n \<Rightarrow> if length s < 4 then None else Some (int n, drop 4 s)))"

text \<open>
  The Date Time String Format of ECMAScript: a date \<open>YYYY\<close>, \<open>YYYY-MM\<close> or \<open>YYYY-MM-DD\<close>
  (the year also as a sign and six digits), alone or followed by \<open>T\<close>, a time \<open>HH:mm\<close>,
  \<open>HH:mm:ss\<close> or \<open>HH:mm:ss.sss\<close>, and an offset \<open>Z\<close>, \<open>+HH:mm\<close> or \<open>-HH:mm\<close>. A date alone is
  a day in UTC. \<open>iso_time\<close> is the time that the standard fixes for such a string, before
  it is clipped; it is \<open>None\<close> for a string outside the format, for a day that the month
  does not have, and for a time without an offset, which is local time.
\<close>

text \<open>The length of the date after the year: nothing, \<open>-MM\<close> or \<open>-MM-DD\<close>.\<close>

definition date_length :: "string \<Rightarrow> nat" where
  "date_length r =
     (if 6 \<le> length r \<and> r ! 0 = CHR ''-'' \<and> r ! 3 = CHR ''-'' then 6
      else if 3 \<le> length r \<and> r ! 0 = CHR ''-'' then 3 else 0)"

text \<open>The day number of the date of the year \<open>y\<close> that \<open>d\<close> writes; a month or a day that
  is left out is the first.\<close>

definition read_day :: "int \<Rightarrow> string \<Rightarrow> int option" where
  "read_day y d =
     (case (if d = [] then Some 1 else read_digits 0 (take 2 (drop 1 d)),
            if length d = 6 then read_digits 0 (drop 4 d) else Some 1) of
        (Some mo, Some dd) \<Rightarrow>
          if mo < 1 \<or> 12 < mo \<or> dd < 1 \<or> month_lengths (leap y) ! (mo - 1) < int dd then None
          else Some (DayFromYear y + DayWithinYear (leap y) (mo - 1) + (int dd - 1))
      | _ \<Rightarrow> None)"

text \<open>The offset in minutes east of UTC.\<close>

definition read_zone :: "string \<Rightarrow> int option" where
  "read_zone z =
     (if z = ''Z'' then Some 0
      else if length z = 6 \<and> (z ! 0 = CHR ''+'' \<or> z ! 0 = CHR ''-'') \<and> z ! 3 = CHR '':'' then
        (case (read_digits 0 (take 2 (drop 1 z)), read_digits 0 (drop 4 z)) of
           (Some h, Some m) \<Rightarrow>
             if 23 < h \<or> 59 < m then None
             else Some ((if z ! 0 = CHR ''-'' then - 1 else 1) * (int h * 60 + int m))
         | _ \<Rightarrow> None)
      else None)"

text \<open>The milliseconds from the start of the day in UTC that a time with its offset
  writes; \<open>24:00:00\<close> is the end of the day.\<close>

definition read_time :: "string \<Rightarrow> int option" where
  "read_time u =
     (if length u < 5 \<or> u ! 2 \<noteq> CHR '':'' then None
      else
        (let secs = (8 \<le> length u \<and> u ! 5 = CHR '':'');
             frac = (secs \<and> 12 \<le> length u \<and> u ! 8 = CHR ''.'');
             n = (if frac then 12 else if secs then 8 else 5)
         in case (read_digits 0 (take 2 u), read_digits 0 (take 2 (drop 3 u)),
                  if secs then read_digits 0 (take 2 (drop 6 u)) else Some 0,
                  if frac then read_digits 0 (take 3 (drop 9 u)) else Some 0,
                  read_zone (drop n u)) of
              (Some h, Some mi, Some sec, Some ms, Some off) \<Rightarrow>
                if 59 < mi \<or> 59 < sec \<or> (if h = 24 then mi \<noteq> 0 \<or> sec \<noteq> 0 \<or> ms \<noteq> 0 else 24 < h)
                then None
                else Some (int h * 3600000 + int mi * 60000 + int sec * 1000 + int ms - off * 60000)
            | _ \<Rightarrow> None))"

definition iso_time :: "string \<Rightarrow> int option" where
  "iso_time s =
     (case read_year s of
        None \<Rightarrow> None
      | Some (y, r) \<Rightarrow>
          (let n = date_length r
           in case read_day y (take n r) of
                None \<Rightarrow> None
              | Some day \<Rightarrow>
                  if drop n r = [] then Some (day * msPerDay)
                  else if r ! n \<noteq> CHR ''T'' then None
                  else (case read_time (drop (Suc n) r) of
                          None \<Rightarrow> None
                        | Some ms \<Rightarrow> Some (day * msPerDay + ms))))"

text \<open>
  \<open>Date.parse\<close>. Where the standard fixes no time, the result is up to the implementation
  ("any implementation-specific heuristics or implementation-specific date formats") and,
  for local time, up to the time zone of the machine. That part of the platform is a
  parameter: \<open>heuristics\<close> is what the engine at hand makes of such a string, a time or
  \<open>NaN\<close>.
\<close>

type_synonym heuristics = "string \<Rightarrow> jsdate"

definition Date_parse :: "heuristics \<Rightarrow> string \<Rightarrow> jsdate" where
  "Date_parse hs s = (case iso_time s of None \<Rightarrow> hs s | Some t \<Rightarrow> TimeClip t)"

text \<open>\<open>a < b\<close> on two \<open>Date\<close> objects compares their time values; with \<open>NaN\<close> on either side
  it is false.\<close>

fun date_lt :: "jsdate \<Rightarrow> jsdate \<Rightarrow> bool" where
  "date_lt (TimeValue a) (TimeValue b) = (a < b)"
| "date_lt _ _ = False"

subsection \<open>Property access, spread, conversion to a date\<close>

text \<open>\<open>v.k\<close> for a property name \<open>k\<close> that no built-in prototype defines: a \<open>TypeError\<close> on
  \<open>null\<close> and \<open>undefined\<close>, the own property of an object, \<open>undefined\<close> otherwise.\<close>

fun get_prop :: "jsval \<Rightarrow> string \<Rightarrow> jsval outcome" where
  "get_prop JUndefined k = Inl (Thrown TypeError (''Cannot read properties of undefined (reading '' @ k @ '')''))"
| "get_prop JNull k = Inl (Thrown TypeError (''Cannot read properties of null (reading '' @ k @ '')''))"
| "get_prop (JObj kvs) k = Inr (case map_of kvs k of None \<Rightarrow> JUndefined | Some v \<Rightarrow> v)"
| "get_prop _ k = Inr JUndefined"

text \<open>Writing a property keeps the position of a property that exists and appends a new one.\<close>

fun set_prop :: "string \<Rightarrow> jsval \<Rightarrow> (string \<times> jsval) list \<Rightarrow> (string \<times> jsval) list" where
  "set_prop k v [] = [(k, v)]"
| "set_prop k v ((k', v') # kvs) = (if k' = k then (k, v) # kvs else (k', v') # set_prop k v kvs)"

text \<open>The own enumerable properties that \<open>{...v}\<close> copies: those of an object, the indexed
  elements of an array or a string, none of any other value.\<close>

fun spread :: "jsval \<Rightarrow> (string \<times> jsval) list" where
  "spread (JObj kvs) = kvs"
| "spread (JArr xs) = zip (map show_nat [0..<length xs]) xs"
| "spread (JStr s) = zip (map show_nat [0..<length s]) (map (\<lambda>c. JStr [c]) s)"
| "spread _ = []"

text \<open>
  \<open>String(v)\<close>, the conversion that \<open>new Error(v)\<close>, \<open>new Date(v)\<close> and a computed property
  name apply. An array is the texts of its elements joined by commas, with nothing for
  \<open>null\<close> and \<open>undefined\<close>. A plain object is \<open>[object Object]\<close> by the \<open>toString\<close> that it
  inherits; an own property \<open>toString\<close> hides that method, and since no value here is a
  function the conversion then throws a \<open>TypeError\<close>. (A valid \<open>Date\<close> is written as
  \<open>toISOString\<close> writes it; its own \<open>toString\<close> writes local time. No value that
  \<open>JSON.parse\<close> returns holds a \<open>Date\<close>.)
\<close>

fun js_string :: "jsval \<Rightarrow> string outcome" and join_elems :: "jsval list \<Rightarrow> string outcome" where
  "js_string JUndefined = Inr ''undefined''"
| "js_string JNull = Inr ''null''"
| "js_string (JBool b) = Inr (if b then ''true'' else ''false'')"
| "js_string (JNum n) = Inr (show_int n)"
| "js_string (JStr s) = Inr s"
| "js_string (JDate d) = Inr (case d of Invalid_Date \<Rightarrow> ''Invalid Date'' | TimeValue t \<Rightarrow> toISOString t)"
| "js_string (JArr xs) = join_elems xs"
| "js_string (JObj kvs) =
     (if map_of kvs ''toString'' \<noteq> None
      then Inl (Thrown TypeError ''Cannot convert object to primitive value'')
      else Inr ''[object Object]'')"
| "join_elems [] = Inr []"
| "join_elems (x # xs) =
     (case (case x of JUndefined \<Rightarrow> Inr [] | JNull \<Rightarrow> Inr [] | _ \<Rightarrow> js_string x) of
        Inl e \<Rightarrow> Inl e
      | Inr first \<Rightarrow>
          (case join_elems xs of
             Inl e \<Rightarrow> Inl e
           | Inr rest \<Rightarrow> Inr (first @ (if xs = [] then [] else CHR '','' # rest))))"

text \<open>
  \<open>new Date(v)\<close> with one argument. A \<open>Date\<close> gives its own time value, a string is parsed,
  \<open>undefined\<close> is \<open>NaN\<close>, \<open>null\<close> and booleans and numbers are taken as milliseconds. An array
  or an object is first turned into a string, which may throw.
\<close>

fun Date_new :: "heuristics \<Rightarrow> jsval \<Rightarrow> jsdate outcome" where
  "Date_new hs JUndefined = Inr Invalid_Date"
| "Date_new hs JNull = Inr (TimeValue 0)"
| "Date_new hs (JBool b) = Inr (TimeValue (if b then 1 else 0))"
| "Date_new hs (JNum n) = Inr (TimeClip n)"
| "Date_new hs (JStr s) = Inr (Date_parse hs s)"
| "Date_new hs (JDate d) = Inr d"
| "Date_new hs (JArr xs) =
     (case js_string (JArr xs) of Inl e \<Rightarrow> Inl e | Inr s \<Rightarrow> Inr (Date_parse hs s))"
| "Date_new hs (JObj kvs) =
     (case js_string (JObj kvs) of Inl e \<Rightarrow> Inl e | Inr s \<Rightarrow> Inr (Date_parse hs s))"

text \<open>\<open>v.toISOString()\<close>: the method of a \<open>Date\<close>; it throws a \<open>RangeError\<close> on an invalid
  date, and calling it on any other value is a \<open>TypeError\<close>.\<close>

fun call_toISOString :: "jsval \<Rightarrow> string outcome" where
  "call_toISOString (JDate (TimeValue t)) = Inr (toISOString t)"
| "call_toISOString (JDate Invalid_Date) = Inl (Thrown RangeError ''Invalid time value'')"
| "call_toISOString _ = Inl (Thrown TypeError ''toISOString is not a function'')"

subsection \<open>JSON\<close>

text \<open>
  What \<open>JSON.stringify\<close> writes for a value: \<open>None\<close> stands for \<open>undefined\<close> (nothing is
  written). A \<open>Date\<close> is written through its \<open>toJSON\<close>, the ISO text or \<open>null\<close>; a property
  whose value is \<open>undefined\<close> is left out; an \<open>undefined\<close> array element is \<open>null\<close>.
\<close>

fun to_json :: "jsval \<Rightarrow> jsval option"
  and to_json_elems :: "jsval list \<Rightarrow> jsval list"
  and to_json_props :: "(string \<times> jsval) list \<Rightarrow> (string \<times> jsval) list" where
  "to_json JUndefined = None"
| "to_json JNull = Some JNull"
| "to_json (JBool b) = Some (JBool b)"
| "to_json (JNum n) = Some (JNum n)"
| "to_json (JStr s) = Some (JStr s)"
| "to_json (JDate d) = Some (case d of Invalid_Date \<Rightarrow> JNull | TimeValue t \<Rightarrow> JStr (toISOString t))"
| "to_json (JArr xs) = Some (JArr (to_json_elems xs))"
| "to_json (JObj kvs) = Some (JObj (to_json_props kvs))"
| "to_json_elems [] = []"
| "to_json_elems (x # xs) = (case to_json x of None \<Rightarrow> JNull | Some j \<Rightarrow> j) # to_json_elems xs"
| "to_json_props [] = []"
| "to_json_props ((k, v) # kvs) =
     (case to_json v of None \<Rightarrow> to_json_props kvs | Some j \<Rightarrow> (k, j) # to_json_props kvs)"

text \<open>
  A string as \<open>localStorage\<close> and an HTTP body hold it. The modules test such a string
  for emptiness and hand it to \<open>JSON.parse\<close>; only the identifier of the browser is used
  as the string it is. So a string is represented by what \<open>JSON.parse\<close> makes of it:
  \<open>Json v\<close> is a JSON text of the value \<open>v\<close>, and \<open>Raw s\<close> is the string \<open>s\<close>, which is not a
  JSON text (an identifier that \<open>generateUUID\<close> makes is none). \<open>JSON.stringify\<close> then
  writes \<open>Json\<close> of the value it serialises, and \<open>JSON.parse\<close> reads it back or throws.
\<close>

datatype jstext = Json jsval | Raw string

definition JSON_stringify :: "jsval \<Rightarrow> jstext" where
  "JSON_stringify v = (case to_json v of None \<Rightarrow> Raw ''undefined'' | Some j \<Rightarrow> Json j)"

fun JSON_parse :: "jstext \<Rightarrow> jsval outcome" where
  "JSON_parse (Json v) = Inr v"
| "JSON_parse (Raw s) = Inl (Thrown SyntaxError ''Unexpected token'')"

text \<open>The characters of a stored string (the identifier of the browser is read this way):
  those of a JSON text are the compact ones \<open>JSON.stringify\<close> writes.\<close>

fun escape :: "string \<Rightarrow> string" where
  "escape [] = []"
| "escape (c # cs) =
     (if c = CHR 0x22 \<or> c = CHR 0x5C then CHR 0x5C # c # escape cs else c # escape cs)"

fun json_chars :: "jsval \<Rightarrow> string"
  and elems_chars :: "jsval list \<Rightarrow> string"
  and props_chars :: "(string \<times> jsval) list \<Rightarrow> string" where
  "json_chars JUndefined = ''null''"
| "json_chars JNull = ''null''"
| "json_chars (JBool b) = (if b then ''true'' else ''false'')"
| "json_chars (JNum n) = show_int n"
| "json_chars (JStr s) = CHR 0x22 # escape s @ [CHR 0x22]"
| "json_chars (JDate d) = ''null''"
| "json_chars (JArr xs) = ''['' @ elems_chars xs @ '']''"
| "json_chars (JObj kvs) = ''{'' @ props_chars kvs @ ''}''"
| "elems_chars [] = []"
| "elems_chars (x # xs) = json_chars x @ (if xs = [] then [] else CHR '','' # elems_chars xs)"
| "props_chars [] = []"
| "props_chars ((k, v) # kvs) =
     CHR 0x22 # escape k @ [CHR 0x22] @ '':'' @ json_chars v
     @ (if kvs = [] then [] else CHR '','' # props_chars kvs)"

fun text_chars :: "jstext \<Rightarrow> string" where
  "text_chars (Raw s) = s"
| "text_chars (Json v) = json_chars v"

subsection \<open>\<open>localStorage\<close>\<close>

text \<open>
  The storage of one origin, with the ways it can fail: outside a browser there is no
  \<open>window\<close> and no \<open>localStorage\<close>; a browser may refuse every access (\<open>denied\<close>, a
  \<open>SecurityError\<close>); a write may exceed the quota (\<open>full\<close>).
\<close>

record storage =
  has_window :: bool
  denied :: bool
  full :: bool
  items :: "string \<rightharpoonup> jstext"

definition storage_error :: "storage \<Rightarrow> js_error option" where
  "storage_error st =
     (if \<not> has_window st then Some (Thrown ReferenceError ''localStorage is not defined'')
      else if denied st then Some (Thrown SecurityError ''The operation is insecure.'')
      else None)"

definition getItem :: "storage \<Rightarrow> string \<Rightarrow> jstext option outcome" where
  "getItem st k = (case storage_error st of Some e \<Rightarrow> Inl e | None \<Rightarrow> Inr (items st k))"

definition setItem :: "storage \<Rightarrow> string \<Rightarrow> jstext \<Rightarrow> storage outcome" where
  "setItem st k v =
     (case storage_error st of
        Some e \<Rightarrow> Inl e
      | None \<Rightarrow>
          if full st then Inl (Thrown QuotaExceededError ''The quota has been exceeded.'')
          else Inr (st\<lparr>items := (items st)(k \<mapsto> v)\<rparr>))"

definition removeItem :: "storage \<Rightarrow> string \<Rightarrow> storage outcome" where
  "removeItem st k =
     (case storage_error st of
        Some e \<Rightarrow> Inl e
      | None \<Rightarrow> Inr (st\<lparr>items := (items st)(k := None)\<rparr>))"

text \<open>\<open>!stored\<close> for what \<open>getItem\<close> returned: \<open>null\<close> or the empty string.\<close>

fun absent :: "jstext option \<Rightarrow> bool" where
  "absent None = True"
| "absent (Some t) = (t = Raw [])"

subsection \<open>\<open>Math.random\<close> and \<open>generateUUID\<close>\<close>

text \<open>
  The random source is the sequence of the values \<open>(Math.random() * 16) | 0\<close> that the
  successive calls give: each is a number of four bits.
\<close>

type_synonym rng = "nat \<Rightarrow> 4 word"

definition hex_char :: "4 word \<Rightarrow> char" where
  "hex_char v = ''0123456789abcdef'' ! unat v"

text \<open>The replacement of every \<open>x\<close> and \<open>y\<close> of the template, left to right; \<open>i\<close> counts the
  calls of \<open>Math.random\<close> made so far.\<close>

fun replace_xy :: "string \<Rightarrow> rng \<Rightarrow> nat \<Rightarrow> string \<times> nat" where
  "replace_xy [] rnd i = ([], i)"
| "replace_xy (c # cs) rnd i =
     (if c = CHR ''x'' \<or> c = CHR ''y'' then
        (let r = rnd i;
             v = (if c = CHR ''x'' then r else (r AND 0x3) OR 0x8);
             (rest, j) = replace_xy cs rnd (Suc i)
         in (hex_char v # rest, j))
      else (let (rest, j) = replace_xy cs rnd i in (c # rest, j)))"

definition generateUUID :: "rng \<Rightarrow> nat \<Rightarrow> string \<times> nat" where
  "generateUUID rnd i = replace_xy ''xxxxxxxx-xxxx-4xxx-yxxx-xxxxxxxxxxxx'' rnd i"

section \<open>SessionManager\<close>

definition SESSION_KEY :: string where
  "SESSION_KEY = ''rag_chatbot_session''"

definition HISTORY_KEY :: string where
  "HISTORY_KEY = ''rag_chatbot_history''"

definition BROWSER_ID_KEY :: string where
  "BROWSER_ID_KEY = ''rag_chatbot_browser_id''"

definition SESSION_EXPIRY_DAYS :: int where
  "SESSION_EXPIRY_DAYS = 30"

text \<open>
  Every method takes the storage and returns its completion and the storage it leaves.
  \<open>now\<close> is the time value that \<open>new Date()\<close> reads, and \<open>hs\<close> is the engine's reading of
  the date strings that the standard leaves open. A \<open>try { ... } catch { ... }\<close> whose
  handler returns a fixed value is \<open>catch_all\<close> around the completion of the block; the
  storage is the one the block left when it threw.
\<close>

definition catch_all :: "'a outcome \<times> storage \<Rightarrow> 'a \<Rightarrow> 'a outcome \<times> storage" where
  "catch_all r dflt = (case r of (Inl e, st) \<Rightarrow> (Inr dflt, st) | (Inr v, st) \<Rightarrow> (Inr v, st))"

text \<open>A method returns (it does not throw).\<close>

definition returns :: "'a outcome \<Rightarrow> bool" where
  "returns r = (case r of Inl e \<Rightarrow> False | Inr v \<Rightarrow> True)"

text \<open>The \<open>try\<close> block of \<open>getSession\<close>.\<close>

definition getSession_try :: "heuristics \<Rightarrow> storage \<Rightarrow> int \<Rightarrow> jsval outcome \<times> storage" where
  "getSession_try hs st now =
     (case getItem st SESSION_KEY of
        Inl e \<Rightarrow> (Inl e, st)
      | Inr None \<Rightarrow> (Inr JNull, st)
      | Inr (Some stored) \<Rightarrow>
          if absent (Some stored) then (Inr JNull, st)
          else
            (case JSON_parse stored of
               Inl e \<Rightarrow> (Inl e, st)
             | Inr session \<Rightarrow>
                 (case get_prop session ''expires_at'' of
                    Inl e \<Rightarrow> (Inl e, st)
                  | Inr expires_at \<Rightarrow>
                      (case Date_new hs expires_at of
                         Inl e \<Rightarrow> (Inl e, st)
                       | Inr d \<Rightarrow>
                           if date_lt d (TimeValue now) then
                             (case removeItem st SESSION_KEY of
                                Inl e \<Rightarrow> (Inl e, st)
                              | Inr st1 \<Rightarrow>
                                  (case removeItem st1 HISTORY_KEY of
                                     Inl e \<Rightarrow> (Inl e, st1)
                                   | Inr st2 \<Rightarrow> (Inr JNull, st2)))
                           else (Inr session, st)))))"

definition getSession :: "heuristics \<Rightarrow> storage \<Rightarrow> int \<Rightarrow> jsval outcome \<times> storage" where
  "getSession hs st now =
     (if \<not> has_window st then (Inr JNull, st) else catch_all (getSession_try hs st now) JNull)"

text \<open>\<open>getOrCreateBrowserId\<close>; \<open>i\<close> counts the calls of \<open>Math.random\<close> made so far, and the
  count after the call is returned.\<close>

definition getOrCreateBrowserId :: "storage \<Rightarrow> rng \<Rightarrow> nat \<Rightarrow> string outcome \<times> storage \<times> nat" where
  "getOrCreateBrowserId st rnd i =
     (if \<not> has_window st then (let (u, j) = generateUUID rnd i in (Inr u, st, j))
      else
        (case getItem st BROWSER_ID_KEY of
           Inl e \<Rightarrow> (let (u, j) = generateUUID rnd i in (Inr u, st, j))
         | Inr None \<Rightarrow>
             (let (browserId, j) = generateUUID rnd i in
                case setItem st BROWSER_ID_KEY (Raw browserId) of
                  Inl e \<Rightarrow> (let (u, k) = generateUUID rnd j in (Inr u, st, k))
                | Inr st1 \<Rightarrow> (Inr browserId, st1, j))
         | Inr (Some stored) \<Rightarrow>
             if absent (Some stored) then
               (let (browserId, j) = generateUUID rnd i in
                  case setItem st BROWSER_ID_KEY (Raw browserId) of
                    Inl e \<Rightarrow> (let (u, k) = generateUUID rnd j in (Inr u, st, k))
                  | Inr st1 \<Rightarrow> (Inr browserId, st1, j))
             else (Inr (text_chars stored), st, i)))"

text \<open>\<open>createSession(pageContext?)\<close>; \<open>pageContext\<close> is \<open>undefined\<close> when the argument is left
  out. The object literal evaluates \<open>generateUUID()\<close> before \<open>getOrCreateBrowserId()\<close>.\<close>

definition createSession ::
  "storage \<Rightarrow> int \<Rightarrow> rng \<Rightarrow> nat \<Rightarrow> jsval \<Rightarrow> jsval outcome \<times> storage \<times> nat" where
  "createSession st now rnd i pageContext =
     (let expiresAt = TimeClip (now + SESSION_EXPIRY_DAYS * 24 * 60 * 60 * 1000);
          (uuid, j) = generateUUID rnd i;
          (bid, st1, k) = getOrCreateBrowserId st rnd j
      in case bid of
           Inl e \<Rightarrow> (Inl e, st1, k)
         | Inr browserId \<Rightarrow>
             (let session = JObj [(''id'', JStr uuid),
                                  (''anonymous_browser_id'', JStr browserId),
                                  (''created_at'', JDate (TimeValue now)),
                                  (''expires_at'', JDate expiresAt),
                                  (''page_context'', pageContext)];
                  st2 = (if has_window st1 then
                           (case setItem st1 SESSION_KEY (JSON_stringify session) of
                              Inl e \<Rightarrow> st1
                            | Inr st' \<Rightarrow> st')
                         else st1)
              in (Inr session, st2, k)))"

text \<open>\<open>messages.map((msg) => ({...msg, timestamp: msg.timestamp.toISOString()}))\<close>: the first
  element that throws ends the whole \<open>map\<close>.\<close>

fun serialize_messages :: "jsval list \<Rightarrow> jsval list outcome" where
  "serialize_messages [] = Inr []"
| "serialize_messages (msg # msgs) =
     (case get_prop msg ''timestamp'' of
        Inl e \<Rightarrow> Inl e
      | Inr ts \<Rightarrow>
          (case call_toISOString ts of
             Inl e \<Rightarrow> Inl e
           | Inr isoText \<Rightarrow>
               (case serialize_messages msgs of
                  Inl e \<Rightarrow> Inl e
                | Inr rest \<Rightarrow> Inr (JObj (set_prop ''timestamp'' (JStr isoText) (spread msg)) # rest))))"

definition saveConversation :: "storage \<Rightarrow> jsval list \<Rightarrow> jsval outcome \<times> storage" where
  "saveConversation st messages =
     (if \<not> has_window st then (Inr JUndefined, st)
      else catch_all
        (case serialize_messages messages of
           Inl e \<Rightarrow> (Inl e, st)
         | Inr serialized \<Rightarrow>
             (case setItem st HISTORY_KEY (JSON_stringify (JArr serialized)) of
                Inl e \<Rightarrow> (Inl e, st)
              | Inr st1 \<Rightarrow> (Inr JUndefined, st1)))
        JUndefined)"

text \<open>\<open>messages.map((msg: any) => ({...msg, timestamp: new Date(msg.timestamp)}))\<close>.\<close>

fun revive_messages :: "heuristics \<Rightarrow> jsval list \<Rightarrow> jsval list outcome" where
  "revive_messages hs [] = Inr []"
| "revive_messages hs (msg # msgs) =
     (case get_prop msg ''timestamp'' of
        Inl e \<Rightarrow> Inl e
      | Inr ts \<Rightarrow>
          (case Date_new hs ts of
             Inl e \<Rightarrow> Inl e
           | Inr d \<Rightarrow>
               (case revive_messages hs msgs of
                  Inl e \<Rightarrow> Inl e
                | Inr rest \<Rightarrow> Inr (JObj (set_prop ''timestamp'' (JDate d) (spread msg)) # rest))))"

text \<open>The \<open>try\<close> block of \<open>getConversationHistory\<close>; \<open>.map\<close> exists on an array only.\<close>

definition getConversationHistory_try :: "heuristics \<Rightarrow> storage \<Rightarrow> jsval outcome" where
  "getConversationHistory_try hs st =
     (case getItem st HISTORY_KEY of
        Inl e \<Rightarrow> Inl e
      | Inr None \<Rightarrow> Inr JNull
      | Inr (Some stored) \<Rightarrow>
          if absent (Some stored) then Inr JNull
          else
            (case JSON_parse stored of
               Inl e \<Rightarrow> Inl e
             | Inr (JArr messages) \<Rightarrow>
                 (case revive_messages hs messages of Inl e \<Rightarrow> Inl e | Inr ms \<Rightarrow> Inr (JArr ms))
             | Inr _ \<Rightarrow> Inl (Thrown TypeError ''messages.map is not a function'')))"

definition getConversationHistory :: "heuristics \<Rightarrow> storage \<Rightarrow> jsval outcome \<times> storage" where
  "getConversationHistory hs st =
     (if \<not> has_window st then (Inr JNull, st)
      else catch_all (getConversationHistory_try hs st, st) JNull)"

definition clearConversation :: "storage \<Rightarrow> jsval outcome \<times> storage" where
  "clearConversation st =
     (if \<not> has_window st then (Inr JUndefined, st)
      else catch_all
        (case removeItem st HISTORY_KEY of
           Inl e \<Rightarrow> (Inl e, st)
         | Inr st1 \<Rightarrow> (Inr JUndefined, st1))
        JUndefined)"

definition deleteSession :: "storage \<Rightarrow> jsval outcome \<times> storage" where
  "deleteSession st =
     (if \<not> has_window st then (Inr JUndefined, st)
      else catch_all
        (case removeItem st SESSION_KEY of
           Inl e \<Rightarrow> (Inl e, st)
         | Inr st1 \<Rightarrow>
             (case removeItem st1 HISTORY_KEY of
                Inl e \<Rightarrow> (Inl e, st1)
              | Inr st2 \<Rightarrow> (Inr JUndefined, st2)))
        JUndefined)"

section \<open>ChatAPI\<close>

text \<open>
  An HTTP exchange as the client sees it. Every request of the client is a \<open>POST\<close> with a
  JSON body; of a response the client reads the status, the \<open>Retry-After\<close> header and the
  body. \<open>fetch\<close> resolves to a response or rejects (a network failure).
\<close>

record request =
  url :: string
  payload :: jstext

record response =
  status :: nat
  retry_after :: "string option"
  body :: jstext

definition response_ok :: "response \<Rightarrow> bool" where
  "response_ok r = (200 \<le> status r \<and> status r \<le> 299)"

text \<open>
  What \<open>query\<close> and \<open>querySelection\<close> do with the response (the two methods repeat the same
  lines): \<open>if (!response.ok) { ... } return response.json()\<close>. \<open>headers.get\<close> gives \<open>null\<close> for
  an absent header, and \<open>||\<close> replaces \<open>null\<close> and the empty string alike. \<open>new Error(v)\<close> has
  the message \<open>String(v)\<close>, and throws what that conversion throws.
\<close>

definition read_response :: "response \<Rightarrow> jsval outcome" where
  "read_response r =
     (if \<not> response_ok r then
        (if status r = 429 then
           (let retryAfter = (case retry_after r of
                                None \<Rightarrow> ''60''
                              | Some h \<Rightarrow> if h = [] then ''60'' else h)
            in Inl (Thrown Error (''Rate limited. Please try again in '' @ retryAfter @ '' seconds.'')))
         else
           (let error = (case JSON_parse (body r) of Inl e \<Rightarrow> JObj [] | Inr v \<Rightarrow> v)
            in case get_prop error ''detail'' of
                 Inl e \<Rightarrow> Inl e
               | Inr detail \<Rightarrow>
                   if truthy detail then
                     (case js_string detail of
                        Inl e \<Rightarrow> Inl e
                      | Inr message \<Rightarrow> Inl (Thrown Error message))
                   else Inl (Thrown Error (''API error: '' @ show_nat (status r)))))
      else JSON_parse (body r))"

definition query_request :: "string \<Rightarrow> string \<Rightarrow> jsval \<Rightarrow> jsval \<Rightarrow> request" where
  "query_request baseUrl question sessionId pageContext =
     \<lparr>url = baseUrl @ ''/api/v1/chat/query'',
      payload = JSON_stringify (JObj [(''question'', JStr question),
                                      (''session_id'', sessionId),
                                      (''page_context'', pageContext)])\<rparr>"

definition selection_request ::
  "string \<Rightarrow> string \<Rightarrow> string \<Rightarrow> jsval \<Rightarrow> string \<Rightarrow> jsval \<Rightarrow> request" where
  "selection_request baseUrl selectedText question sessionId chapter section =
     \<lparr>url = baseUrl @ ''/api/v1/chat/selection'',
      payload = JSON_stringify (JObj [(''selected_text'', JStr selectedText),
                                      (''question'', JStr question),
                                      (''session_id'', sessionId),
                                      (''chapter'', JStr chapter),
                                      (''section'', if truthy section then section else JStr [])])\<rparr>"

text \<open>The completion of the awaited call, from the way \<open>fetch\<close> settled.\<close>

definition settle :: "response outcome \<Rightarrow> jsval outcome" where
  "settle fetched = (case fetched of Inl e \<Rightarrow> Inl e | Inr r \<Rightarrow> read_response r)"

text \<open>The two methods against a network \<open>net\<close> that answers each request: the \<open>fetch\<close> calls
  made, in order, and the completion.\<close>

definition query ::
  "(request \<Rightarrow> response outcome) \<Rightarrow> string \<Rightarrow> string \<Rightarrow> jsval \<Rightarrow> jsval \<Rightarrow> request list \<times> jsval outcome" where
  "query net baseUrl question sessionId pageContext =
     (let rq = query_request baseUrl question sessionId pageContext in ([rq], settle (net rq)))"

definition querySelection ::
  "(request \<Rightarrow> response outcome) \<Rightarrow> string \<Rightarrow> string \<Rightarrow> string \<Rightarrow> jsval \<Rightarrow> string \<Rightarrow> jsval
     \<Rightarrow> request list \<times> jsval outcome" where
  "querySelection net baseUrl selectedText question sessionId chapter section =
     (let rq = selection_request baseUrl selectedText question sessionId chapter section
      in ([rq], settle (net rq)))"

section \<open>ChatWidget\<close>

subsection \<open>Strings\<close>

text \<open>\<open>trim\<close> removes white space and line terminators at both ends. A \<open>char\<close> is a
  character below U+0100; of those, JavaScript counts as white space or line terminator
  the tab, the line feed, the vertical tab, the form feed, the carriage return, the space
  and the no-break space.\<close>

definition is_space :: "char \<Rightarrow> bool" where
  "is_space c =
     (c = CHR 0x09 \<or> c = CHR 0x0A \<or> c = CHR 0x0B \<or> c = CHR 0x0C \<or> c = CHR 0x0D \<or> c = CHR 0x20
      \<or> c = CHR 0xA0)"

definition trim :: "string \<Rightarrow> string" where
  "trim s = rev (dropWhile is_space (rev (dropWhile is_space s)))"

text \<open>\<open>s.split(c)\<close> for a separator of one character.\<close>

fun split_on :: "char \<Rightarrow> string \<Rightarrow> string list" where
  "split_on c [] = [[]]"
| "split_on c (x # xs) =
     (if x = c then [] # split_on c xs
      else (case split_on c xs of [] \<Rightarrow> [[x]] | p # ps \<Rightarrow> (x # p) # ps))"

text \<open>\<open>window.location.pathname.split('/')[2] || 'Unknown'\<close>.\<close>

definition chapter_of :: "string \<Rightarrow> string" where
  "chapter_of pathname =
     (let parts = split_on CHR ''/'' pathname
      in if 2 < length parts \<and> parts ! 2 \<noteq> [] then parts ! 2 else ''Unknown'')"

subsection \<open>State\<close>

text \<open>The state hooks of the component. \<open>session\<close> is \<open>null\<close> until the mount effect has run;
  \<open>showSources\<close> is the record of the message identifiers whose sources are shown.\<close>

record widget =
  messages :: "jsval list"
  isLoading :: bool
  isOpen :: bool
  selectedText :: string
  session :: jsval
  inputValue :: string
  showMenu :: bool
  showSources :: "string \<Rightarrow> bool"

text \<open>
  A run of \<open>handleSend\<close> that is suspended at its \<open>await\<close>: the request it sent, and what its
  closure holds for the lines after the \<open>await\<close>, the \<open>messages\<close> of the render that made
  the handler and the \<open>userMessage\<close> it built.
\<close>

record call =
  sent :: request
  closure_messages :: "jsval list"
  userMessage :: jsval

text \<open>The component in its page: the hooks, the storage, the suspended calls (oldest
  first), the base URL of the client and the random source with the number of draws made.\<close>

record world =
  ui :: widget
  store :: storage
  calls :: "call list"
  apiUrl :: string
  random :: rng
  drawn :: nat

subsection \<open>The messages built by \<open>handleSend\<close>\<close>

text \<open>\<open>now\<close> is the reading of the clock; the reads of one run of a handler fall in the same
  millisecond.\<close>

definition user_message :: "string \<Rightarrow> int \<Rightarrow> jsval" where
  "user_message question now =
     JObj [(''id'', JStr (show_int now)),
           (''type'', JStr ''user''),
           (''content'', JStr question),
           (''timestamp'', JDate (TimeValue now))]"

definition assistant_message :: "jsval \<Rightarrow> int \<Rightarrow> jsval outcome" where
  "assistant_message resp now =
     (case get_prop resp ''message_id'' of
        Inl e \<Rightarrow> Inl e
      | Inr message_id \<Rightarrow>
          (case get_prop resp ''answer'' of
             Inl e \<Rightarrow> Inl e
           | Inr answer \<Rightarrow>
               (case get_prop resp ''sources'' of
                  Inl e \<Rightarrow> Inl e
                | Inr sources \<Rightarrow>
                    (case get_prop resp ''confidence'' of
                       Inl e \<Rightarrow> Inl e
                     | Inr confidence \<Rightarrow>
                         Inr (JObj [(''id'', message_id),
                                    (''type'', JStr ''assistant''),
                                    (''content'', answer),
                                    (''sources'', sources),
                                    (''confidence'', confidence),
                                    (''timestamp'', JDate (TimeValue now))])))))"

text \<open>\<open>err instanceof Error ? err.message : 'Failed to get response'\<close>, and the message of
  the \<open>catch\<close> branch.\<close>

fun error_text :: "js_error \<Rightarrow> string" where
  "error_text (Thrown n m) = m"
| "error_text (ThrownValue v) = ''Failed to get response''"

definition error_message :: "js_error \<Rightarrow> int \<Rightarrow> jsval" where
  "error_message err now =
     JObj [(''id'', JStr (''error-'' @ show_int now)),
           (''type'', JStr ''error''),
           (''content'', JStr (error_text err)),
           (''timestamp'', JDate (TimeValue now))]"

subsection \<open>The handlers\<close>

text \<open>The \<open>catch\<close> and \<open>finally\<close> of \<open>handleSend\<close>.\<close>

definition send_failed :: "widget \<Rightarrow> js_error \<Rightarrow> int \<Rightarrow> widget" where
  "send_failed u err now = u\<lparr>messages := messages u @ [error_message err now], isLoading := False\<rparr>"

text \<open>
  \<open>handleSend(question, useSelection)\<close> up to its \<open>await\<close>. The client exists once the mount
  effect has run, so of the three guards the first two are left. The state setters take
  effect together when the handler gives up control.
\<close>

definition handleSend :: "world \<Rightarrow> string \<Rightarrow> bool \<Rightarrow> int \<Rightarrow> string \<Rightarrow> world" where
  "handleSend w question useSelection now pathname =
     (if trim question = [] \<or> \<not> truthy (session (ui w)) then w
      else
        (let userMsg = user_message question now;
             u = (ui w)\<lparr>inputValue := [], messages := messages (ui w) @ [userMsg], isLoading := True\<rparr>
         in case get_prop (session (ui w)) ''id'' of
              Inl e \<Rightarrow> w\<lparr>ui := send_failed u e now\<rparr>
            | Inr sessionId \<Rightarrow>
                w\<lparr>ui := u,
                  calls := calls w @
                    [\<lparr>sent = (if useSelection \<and> selectedText (ui w) \<noteq> []
                              then selection_request (apiUrl w) (selectedText (ui w)) question
                                     sessionId (chapter_of pathname) JUndefined
                              else query_request (apiUrl w) question sessionId (JStr pathname)),
                      closure_messages = messages (ui w),
                      userMessage = userMsg\<rparr>]\<rparr>))"

text \<open>The rest of \<open>handleSend\<close>, run when the \<open>fetch\<close> of the suspended call \<open>i\<close> has settled.\<close>

definition resume :: "world \<Rightarrow> nat \<Rightarrow> response outcome \<Rightarrow> int \<Rightarrow> world" where
  "resume w i fetched now =
     (let c = calls w ! i;
          others = take i (calls w) @ drop (Suc i) (calls w)
      in case settle fetched of
           Inl e \<Rightarrow> w\<lparr>ui := send_failed (ui w) e now, calls := others\<rparr>
         | Inr resp \<Rightarrow>
             (case assistant_message resp now of
                Inl e \<Rightarrow> w\<lparr>ui := send_failed (ui w) e now, calls := others\<rparr>
              | Inr assistantMsg \<Rightarrow>
                  w\<lparr>ui := (ui w)\<lparr>messages := messages (ui w) @ [assistantMsg],
                                  selectedText := [],
                                  isLoading := False\<rparr>,
                    store := snd (saveConversation (store w)
                                    (closure_messages c @ [userMessage c, assistantMsg])),
                    calls := others\<rparr>))"

text \<open>\<open>handleClearHistory\<close> and \<open>handleNewSession\<close>; \<open>ok\<close> is the answer to \<open>window.confirm\<close>.\<close>

definition handleClearHistory :: "world \<Rightarrow> bool \<Rightarrow> world" where
  "handleClearHistory w ok =
     (if ok then
        w\<lparr>ui := (ui w)\<lparr>messages := [], showMenu := False\<rparr>,
          store := snd (clearConversation (store w))\<rparr>
      else w)"

definition handleNewSession :: "world \<Rightarrow> bool \<Rightarrow> int \<Rightarrow> world" where
  "handleNewSession w ok now =
     (if ok then
        (let (r, st, k) = createSession (store w) now (random w) (drawn w) JUndefined;
             u = (case r of
                    Inl e \<Rightarrow> ui w
                  | Inr newSession \<Rightarrow>
                      (if truthy newSession then (ui w)\<lparr>session := newSession\<rparr> else ui w)
                        \<lparr>messages := [], selectedText := [], showMenu := False\<rparr>)
         in w\<lparr>ui := u, store := st, drawn := k\<rparr>)
      else w)"

text \<open>The \<open>mouseup\<close> listener; \<open>selection\<close> is \<open>window.getSelection()?.toString()\<close>, empty when
  there is none.\<close>

definition handleSelection :: "world \<Rightarrow> string \<Rightarrow> world" where
  "handleSelection w selection =
     (let selected = trim selection
      in if selected \<noteq> [] \<and> 10 < length selected
         then w\<lparr>ui := (ui w)\<lparr>selectedText := selected\<rparr>\<rparr> else w)"

text \<open>The mount effect, on first render: the hooks hold their initial values.\<close>

definition initial_widget :: widget where
  "initial_widget =
     \<lparr>messages = [], isLoading = False, isOpen = False, selectedText = [], session = JNull,
      inputValue = [], showMenu = False, showSources = (\<lambda>k. False)\<rparr>"

definition mount :: "heuristics \<Rightarrow> storage \<Rightarrow> string \<Rightarrow> rng \<Rightarrow> nat \<Rightarrow> int \<Rightarrow> world" where
  "mount hs st base rnd i now =
     (case getSession hs st now of
        (Inl e, st1) \<Rightarrow>
          \<lparr>ui = initial_widget, store = st1, calls = [], apiUrl = base, random = rnd, drawn = i\<rparr>
      | (Inr existingSession, st1) \<Rightarrow>
          (let (sess, st2, k) =
                 (if truthy existingSession then (Inr existingSession, st1, i)
                  else createSession st1 now rnd i JUndefined)
           in case sess of
                Inl e \<Rightarrow>
                  \<lparr>ui = initial_widget, store = st2, calls = [], apiUrl = base, random = rnd, drawn = k\<rparr>
              | Inr s \<Rightarrow>
                  (case getConversationHistory hs st2 of
                     (Inr (JArr savedMessages), st3) \<Rightarrow>
                       \<lparr>ui = initial_widget\<lparr>session := s, messages := savedMessages\<rparr>,
                        store = st3, calls = [], apiUrl = base, random = rnd, drawn = k\<rparr>
                   | (_, st3) \<Rightarrow>
                       \<lparr>ui = initial_widget\<lparr>session := s\<rparr>,
                        store = st3, calls = [], apiUrl = base, random = rnd, drawn = k\<rparr>)))"

subsection \<open>Events\<close>

text \<open>
  What can happen to the mounted component: the user acts on a control that the current
  render shows and enables, the document reports a \<open>mouseup\<close>, or the \<open>fetch\<close> of a suspended
  call settles. An event brings what its handler reads from the page: the clock, the
  path of the location, the answer to a confirmation.
\<close>

datatype event =
    ClickOpen
  | ClickClose
  | ClickMenu
  | ClickClearHistory bool
  | ClickNewSession bool int
  | ChangeInput string
  | KeyDown string bool int string
  | ClickSend int string
  | ClickSources string
  | MouseUp string
  | Settled nat "response outcome" int

text \<open>\<open>msg.sources && msg.sources.length > 0\<close> for the message with the identifier \<open>k\<close>.\<close>

definition has_sources :: "string \<Rightarrow> jsval \<Rightarrow> bool" where
  "has_sources k msg =
     (case (get_prop msg ''id'', get_prop msg ''sources'') of
        (Inr i, Inr (JArr xs)) \<Rightarrow> js_string i = Inr k \<and> xs \<noteq> []
      | _ \<Rightarrow> False)"

text \<open>
  The controls as the render shows them. Closed, the component shows the floating button
  alone. Open, it shows the header, the menu items while \<open>showMenu\<close>, a sources button for
  every message with sources, and the input row: the textarea carries
  \<open>disabled={isLoading}\<close> and the send button \<open>disabled={isLoading || !inputValue.trim()}\<close>, and
  a disabled control delivers no event.
\<close>

fun available :: "world \<Rightarrow> event \<Rightarrow> bool" where
  "available w ClickOpen = (\<not> isOpen (ui w))"
| "available w ClickClose = isOpen (ui w)"
| "available w ClickMenu = isOpen (ui w)"
| "available w (ClickClearHistory ok) = (isOpen (ui w) \<and> showMenu (ui w))"
| "available w (ClickNewSession ok now) = (isOpen (ui w) \<and> showMenu (ui w))"
| "available w (ChangeInput v) = (isOpen (ui w) \<and> \<not> isLoading (ui w))"
| "available w (KeyDown k shift now pathname) = (isOpen (ui w) \<and> \<not> isLoading (ui w))"
| "available w (ClickSend now pathname) =
     (isOpen (ui w) \<and> \<not> (isLoading (ui w) \<or> trim (inputValue (ui w)) = []))"
| "available w (ClickSources k) = (isOpen (ui w) \<and> list_ex (has_sources k) (messages (ui w)))"
| "available w (MouseUp selection) = True"
| "available w (Settled i fetched now) = (i < length (calls w))"

fun handle :: "world \<Rightarrow> event \<Rightarrow> world" where
  "handle w ClickOpen = w\<lparr>ui := (ui w)\<lparr>isOpen := True\<rparr>\<rparr>"
| "handle w ClickClose = w\<lparr>ui := (ui w)\<lparr>isOpen := False\<rparr>\<rparr>"
| "handle w ClickMenu = w\<lparr>ui := (ui w)\<lparr>showMenu := \<not> showMenu (ui w)\<rparr>\<rparr>"
| "handle w (ClickClearHistory ok) = handleClearHistory w ok"
| "handle w (ClickNewSession ok now) = handleNewSession w ok now"
| "handle w (ChangeInput v) = w\<lparr>ui := (ui w)\<lparr>inputValue := take 500 v\<rparr>\<rparr>"
| "handle w (KeyDown k shift now pathname) =
     (if k = ''Enter'' \<and> \<not> shift then handleSend w (inputValue (ui w)) False now pathname else w)"
| "handle w (ClickSend now pathname) = handleSend w (inputValue (ui w)) False now pathname"
| "handle w (ClickSources k) =
     w\<lparr>ui := (ui w)\<lparr>showSources := (showSources (ui w))(k := \<not> showSources (ui w) k)\<rparr>\<rparr>"
| "handle w (MouseUp selection) = handleSelection w selection"
| "handle w (Settled i fetched now) = resume w i fetched now"

definition step :: "world \<Rightarrow> event \<Rightarrow> world" where
  "step w ev = (if available w ev then handle w ev else w)"

text \<open>The component after a sequence of events.\<close>

definition run :: "world \<Rightarrow> event list \<Rightarrow> world" where
  "run w evs = foldl step w evs"

section \<open>Example inputs\<close>

text \<open>An engine that reads the Date Time String Format and no other date string. The
  examples parse no string outside the format.\<close>

definition strict :: heuristics where
  "strict = (\<lambda>s. Invalid_Date)"

text \<open>A browser whose storage works and is empty, a page rendered outside a browser, and a
  browser whose storage is over its quota.\<close>

definition empty_browser :: storage where
  "empty_browser = \<lparr>has_window = True, denied = False, full = False, items = Map.empty\<rparr>"

definition no_browser :: storage where
  "no_browser = \<lparr>has_window = False, denied = False, full = False, items = Map.empty\<rparr>"

definition full_browser :: storage where
  "full_browser = \<lparr>has_window = True, denied = False, full = True, items = Map.empty\<rparr>"

text \<open>A browser that refuses every access to the storage, and one whose stored texts are
  not JSON.\<close>

definition locked_browser :: storage where
  "locked_browser = \<lparr>has_window = True, denied = True, full = False, items = Map.empty\<rparr>"

definition garbled_browser :: storage where
  "garbled_browser =
     \<lparr>has_window = True, denied = False, full = False,
      items = [SESSION_KEY \<mapsto> Raw ''{id:'', HISTORY_KEY \<mapsto> Raw ''[{''] \<rparr>"

text \<open>A random source whose draws are 0, 1, 2, ... and one that always draws 0.\<close>

definition counting :: rng where
  "counting = (\<lambda>i. of_nat i)"

definition zeros :: rng where
  "zeros = (\<lambda>i. 0)"

text \<open>The session that \<open>createSession\<close> writes at 2023-11-14T22:13:20.000Z in the empty browser,
  as \<open>JSON.parse\<close> reads it back, and a browser that holds it.\<close>

definition stored_session :: jsval where
  "stored_session =
     JObj [(''id'', JStr ''01234567-89ab-4cde-b012-3456789abcde''),
           (''anonymous_browser_id'', JStr ''f0123456-789a-4bcd-af01-23456789abcd''),
           (''created_at'', JStr ''2023-11-14T22:13:20.000Z''),
           (''expires_at'', JStr ''2023-12-14T22:13:20.000Z'')]"

definition session_browser :: storage where
  "session_browser =
     \<lparr>has_window = True, denied = False, full = False,
      items = [SESSION_KEY \<mapsto> Json stored_session, HISTORY_KEY \<mapsto> Json (JArr [])]\<rparr>"

text \<open>A stored session without \<open>expires_at\<close>: \<open>new Date(undefined)\<close> is an invalid date.\<close>

definition undated_session :: jsval where
  "undated_session =
     JObj [(''id'', JStr ''01234567-89ab-4cde-b012-3456789abcde''),
           (''anonymous_browser_id'', JStr ''f0123456-789a-4bcd-af01-23456789abcd''),
           (''created_at'', JStr ''2023-11-14T22:13:20.000Z'')]"

definition undated_browser :: storage where
  "undated_browser =
     \<lparr>has_window = True, denied = False, full = False,
      items = [SESSION_KEY \<mapsto> Json undated_session, HISTORY_KEY \<mapsto> Json (JArr [])]\<rparr>"

text \<open>A stored session whose \<open>expires_at\<close> is a string outside the Date Time String Format,
  which the engine \<open>strict\<close> (like the engines in use) reads as no date.\<close>

definition vague_session :: jsval where
  "vague_session =
     JObj [(''id'', JStr ''01234567-89ab-4cde-b012-3456789abcde''),
           (''expires_at'', JStr ''next month'')]"

definition vague_browser :: storage where
  "vague_browser =
     \<lparr>has_window = True, denied = False, full = False,
      items = [SESSION_KEY \<mapsto> Json vague_session, HISTORY_KEY \<mapsto> Json (JArr [])]\<rparr>"

text \<open>A stored session whose \<open>expires_at\<close> is the JSON object \<open>{"toString":1}\<close>: no date
  can be read from it, and \<open>new Date\<close> throws on it.\<close>

definition opaque_session :: jsval where
  "opaque_session =
     JObj [(''id'', JStr ''01234567-89ab-4cde-b012-3456789abcde''),
           (''expires_at'', JObj [(''toString'', JNum 1)])]"

definition opaque_browser :: storage where
  "opaque_browser =
     \<lparr>has_window = True, denied = False, full = False,
      items = [SESSION_KEY \<mapsto> Json opaque_session, HISTORY_KEY \<mapsto> Json (JArr [])]\<rparr>"

text \<open>The object that \<open>createSession\<close> builds, from the identifier, the identifier of the
  browser, the time of creation and the page context.\<close>

definition session_object :: "string \<Rightarrow> string \<Rightarrow> int \<Rightarrow> jsval \<Rightarrow> jsval" where
  "session_object uuid browserId now pageContext =
     JObj [(''id'', JStr uuid),
           (''anonymous_browser_id'', JStr browserId),
           (''created_at'', JDate (TimeValue now)),
           (''expires_at'', JDate (TimeClip (now + 30 * 24 * 60 * 60 * 1000))),
           (''page_context'', pageContext)]"


definition asking :: world where
  "asking =
     run (mount strict empty_browser ''http://localhost:8000'' counting 0 1700000000000)
       [ClickOpen, ChangeInput ''What is ROS 2?'', ClickSend 1700000001000 ''/docs/intro'']"




text \<open>The assistant message built from that answer at 2023-11-14T22:13:22.000Z.\<close>

definition answer_message :: jsval where
  "answer_message =
     JObj [(''id'', JStr ''m-1''),
           (''type'', JStr ''assistant''),
           (''content'', JStr ''ROS 2 is a set of libraries for robots.''),
           (''sources'', JArr [JObj [(''id'', JStr ''c-1''),
                                     (''chapter'', JStr ''intro''),
                                     (''content_excerpt'', JStr ''ROS 2 is''),
                                     (''relevance_score'', JNum 1)]]),
           (''confidence'', JNum 1),
           (''timestamp'', JDate (TimeValue 1700000002000))]"






text \<open>A component has at most the one suspended call that \<open>isLoading\<close> stands for.\<close>

definition one_call :: "world \<Rightarrow> bool" where
  "one_call w = (length (calls w) = (if isLoading (ui w) then 1 else 0))"

text \<open>
  The messages that \<open>saveConversation\<close> can keep: objects whose \<open>timestamp\<close> is a valid
  \<open>Date\<close> and whose other properties are JSON data (values that \<open>JSON.stringify\<close> writes
  as they are) or \<open>undefined\<close>. The messages of the component are of this kind. What comes
  back of such a message is the message without its \<open>undefined\<close> properties.
\<close>

definition json_or_undefined :: "jsval \<Rightarrow> bool" where
  "json_or_undefined v = (v = JUndefined \<or> to_json v = Some v)"

definition chat_message :: "jsval \<Rightarrow> bool" where
  "chat_message msg =
     (case msg of
        JObj kvs \<Rightarrow>
          distinct (map fst kvs)
          \<and> (case map_of kvs ''timestamp'' of
                Some (JDate (TimeValue t)) \<Rightarrow> \<bar>t\<bar> \<le> max_time
              | _ \<Rightarrow> False)
          \<and> list_all (\<lambda>(k, v). k = ''timestamp'' \<or> json_or_undefined v) kvs
      | _ \<Rightarrow> False)"

definition without_undefined :: "jsval \<Rightarrow> jsval" where
  "without_undefined msg =
     (case msg of JObj kvs \<Rightarrow> JObj (filter (\<lambda>(k, v). v \<noteq> JUndefined) kvs) | _ \<Rightarrow> msg)"

text \<open>A message whose \<open>timestamp\<close> is an invalid date.\<close>

definition undated_message :: jsval where
  "undated_message =
     JObj [(''id'', JStr ''1700000001000''), (''type'', JStr ''user''),
           (''content'', JStr ''What is ROS 2?''), (''timestamp'', JDate Invalid_Date)]"

section \<open>Facts about the platform\<close>

lemma catch_all_simps [simp]:
  "catch_all (Inl e, st) d = (Inr d, st)"
  "catch_all (Inr v, st) d = (Inr v, st)"
  by (simp_all add: catch_all_def)

lemma storage_error_None: "storage_error st = None \<longleftrightarrow> has_window st \<and> \<not> denied st"
  by (simp add: storage_error_def)

lemma getItem_ok [simp]: "storage_error st = None \<Longrightarrow> getItem st k = Inr (items st k)"
  by (simp add: getItem_def)

lemma getItem_err [simp]: "storage_error st = Some e \<Longrightarrow> getItem st k = Inl e"
  by (simp add: getItem_def)

lemma removeItem_ok [simp]:
  "storage_error st = None \<Longrightarrow> removeItem st k = Inr (st\<lparr>items := (items st)(k := None)\<rparr>)"
  by (simp add: removeItem_def)

lemma removeItem_err [simp]: "storage_error st = Some e \<Longrightarrow> removeItem st k = Inl e"
  by (simp add: removeItem_def)

lemma setItem_ok [simp]:
  "storage_error st = None \<Longrightarrow> \<not> full st \<Longrightarrow> setItem st k v = Inr (st\<lparr>items := (items st)(k \<mapsto> v)\<rparr>)"
  by (simp add: setItem_def)

lemma setItem_err [simp]: "storage_error st = Some e \<Longrightarrow> setItem st k v = Inl e"
  by (simp add: setItem_def)

lemma setItem_full [simp]:
  "storage_error st = None \<Longrightarrow> full st \<Longrightarrow>
     setItem st k v = Inl (Thrown QuotaExceededError ''The quota has been exceeded.'')"
  by (simp add: setItem_def)

lemma storage_error_items_update [simp]: "storage_error (st\<lparr>items := m\<rparr>) = storage_error st"
  by (simp add: storage_error_def)

lemma keys_distinct [simp]:
  "SESSION_KEY \<noteq> HISTORY_KEY" "HISTORY_KEY \<noteq> SESSION_KEY"
  "SESSION_KEY \<noteq> BROWSER_ID_KEY" "BROWSER_ID_KEY \<noteq> SESSION_KEY"
  "HISTORY_KEY \<noteq> BROWSER_ID_KEY" "BROWSER_ID_KEY \<noteq> HISTORY_KEY"
  by (simp_all add: SESSION_KEY_def HISTORY_KEY_def BROWSER_ID_KEY_def)

section \<open>Dates: \<open>Date.parse\<close> reads back what \<open>toISOString\<close> writes\<close>

subsection \<open>Digits\<close>

lemma below_ten:
  "k < 10 \<Longrightarrow> k = 0 \<or> k = 1 \<or> k = 2 \<or> k = 3 \<or> k = 4 \<or> k = 5 \<or> k = 6 \<or> k = 7 \<or> k = 8 \<or> k = (9::nat)"
  by arith

lemma digit_val_digit_char: "digit_val (digit_char n) = Some (n mod 10)"
  using below_ten [of "n mod 10"]
  by (auto simp: digit_val_def digit_char_def)

lemma digit_char_no_sign: "digit_char n \<noteq> CHR ''+''" "digit_char n \<noteq> CHR ''-''"
  using below_ten [of "n mod 10"]
  by (auto simp: digit_char_def)

lemma read_digits_append:
  "read_digits acc (xs @ ys) =
     (case read_digits acc xs of None \<Rightarrow> None | Some a \<Rightarrow> read_digits a ys)"
  by (induction xs arbitrary: acc) (auto split: option.splits)

lemma length_pad [simp]: "length (pad w n) = w"
  by (induction w arbitrary: n) auto

lemma read_digits_pad:
  "n < 10 ^ w \<Longrightarrow> read_digits acc (pad w n) = Some (acc * 10 ^ w + n)"
proof (induction w arbitrary: n acc)
  case 0
  then show ?case by simp
next
  case (Suc w)
  from Suc.prems have "n div 10 < 10 ^ w"
    by (simp add: less_mult_imp_div_less mult.commute)
  from Suc.IH [OF this, of acc] show ?case
    by (simp add: read_digits_append digit_val_digit_char algebra_simps)
qed

lemma read_pad: "n < 10 ^ w \<Longrightarrow> read_digits 0 (pad w n) = Some n"
  by (simp add: read_digits_pad)

lemma pad_digits: "c \<in> set (pad w n) \<Longrightarrow> c \<noteq> CHR ''+'' \<and> c \<noteq> CHR ''-''"
  by (induction w arbitrary: n) (auto simp: digit_char_no_sign)

subsection \<open>The year field\<close>

lemma read_year_chars:
  assumes "- 1000000 < y" and "y < 1000000"
  shows "read_year (year_chars y @ rest) = Some (y, rest)"
proof (cases "0 \<le> y \<and> y \<le> 9999")
  case True
  then have small: "nat y < 10 ^ 4" by auto
  obtain c cs where pad4: "pad 4 (nat y) = c # cs"
    by (metis length_pad length_0_conv neq_Nil_conv zero_neq_numeral)
  then have "c \<in> set (pad 4 (nat y))" by simp
  then have nosign: "c \<noteq> CHR ''+''" "c \<noteq> CHR ''-''"
    using pad_digits by blast+
  have len: "length cs = 3"
    using pad4 length_pad [of 4 "nat y"] by simp
  with True nosign small pad4 show ?thesis
    using read_pad [of "nat y" 4]
    by (simp add: read_year_def year_chars_def)
next
  case False
  from assms have six: "nat \<bar>y\<bar> < 10 ^ 6" by auto
  have "take 6 (pad 6 (nat \<bar>y\<bar>) @ rest) = pad 6 (nat \<bar>y\<bar>)" "drop 6 (pad 6 (nat \<bar>y\<bar>) @ rest) = rest"
    by simp_all
  with False six show ?thesis
    using read_pad [of "nat \<bar>y\<bar>" 6]
    by (auto simp: read_year_def year_chars_def)
qed

subsection \<open>Years and months of a day number\<close>

lemma DaysInYear_bounds: "365 \<le> DaysInYear y" "DaysInYear y \<le> 366"
  by (simp_all add: DaysInYear_def)

lemma DayFromYear_next:
  assumes "1970 \<le> y"
  shows "DayFromYear (y + 1) = DayFromYear y + DaysInYear y"
proof -
  obtain n where n: "y = 1970 + int n"
    using assms by (metis add.commute le_add_diff_inverse nonneg_int_cases diff_ge_0_iff_ge)
  then have "nat (y + 1 - 1970) = Suc n" "nat (y - 1970) = n"
    by simp_all
  with n show ?thesis
    by (simp add: DayFromYear_def)
qed

lemma DayFromYear_prev:
  assumes "y \<le> 1970"
  shows "DayFromYear (y - 1) = DayFromYear y - DaysInYear (y - 1)"
proof -
  obtain n where n: "y = 1970 - int n"
    using assms by (metis diff_diff_eq2 diff_ge_0_iff_ge nonneg_int_cases add_diff_cancel_left')
  then have "nat (1970 - (y - 1)) = Suc n" "nat (1970 - y) = n"
    by simp_all
  with n show ?thesis
    by (cases n) (simp_all add: DayFromYear_def)
qed

lemma year_up_spec:
  "0 \<le> d \<Longrightarrow> 1970 \<le> y \<Longrightarrow> year_up y d = (y', r) \<Longrightarrow>
     1970 \<le> y' \<and> 0 \<le> r \<and> r < DaysInYear y' \<and> DayFromYear y' + r = DayFromYear y + d"
proof (induction y d rule: year_up.induct)
  case (1 y d)
  show ?case
  proof (cases "d < DaysInYear y")
    case True
    with "1.prems" show ?thesis
      by (simp add: year_up.simps [of y d])
  next
    case False
    with "1.prems" have "year_up (y + 1) (d - DaysInYear y) = (y', r)"
      by (simp add: year_up.simps [of y d])
    with "1.IH" [OF False] False "1.prems" show ?thesis
      by (simp add: DayFromYear_next)
  qed
qed

lemma year_down_spec:
  "y \<le> 1970 \<Longrightarrow> year_down y d = (y', r) \<Longrightarrow> d < DaysInYear y \<Longrightarrow>
     y' \<le> 1970 \<and> (d < 0 \<longrightarrow> 0 \<le> r) \<and> r < DaysInYear y' \<and> DayFromYear y' + r = DayFromYear y + d"
proof (induction y d rule: year_down.induct)
  case (1 y d)
  show ?case
  proof (cases "0 \<le> d")
    case True
    with "1.prems" show ?thesis
      by (simp add: year_down.simps [of y d])
  next
    case False
    with "1.prems" have step: "year_down (y - 1) (d + DaysInYear (y - 1)) = (y', r)"
      by (simp add: year_down.simps [of y d])
    from False have "d + DaysInYear (y - 1) < DaysInYear (y - 1)"
      by simp
    with "1.IH" [OF False _ step] "1.prems" False
    have ih: "y' \<le> 1970" "r < DaysInYear y'"
      "DayFromYear y' + r = DayFromYear (y - 1) + (d + DaysInYear (y - 1))"
      "d + DaysInYear (y - 1) < 0 \<longrightarrow> 0 \<le> r"
      by simp_all
    have "0 \<le> r"
    proof (cases "d + DaysInYear (y - 1) < 0")
      case True
      with ih(4) show ?thesis by simp
    next
      case False
      then have "year_down (y - 1) (d + DaysInYear (y - 1)) = (y - 1, d + DaysInYear (y - 1))"
        by (simp add: year_down.simps [of "y - 1"])
      with step have "r = d + DaysInYear (y - 1)" by auto
      with False show ?thesis by simp
    qed
    with ih "1.prems" show ?thesis
      by (simp add: DayFromYear_prev)
  qed
qed

lemma YearFromDay_spec:
  assumes "YearFromDay day = (y, doy)"
  shows "0 \<le> doy \<and> doy < DaysInYear y \<and> DayFromYear y + doy = day"
proof (cases "0 \<le> day")
  case True
  with assms year_up_spec [of day 1970 y doy] show ?thesis
    by (auto simp: YearFromDay_def DayFromYear_def)
next
  case False
  with assms year_down_spec [of 1970 day y doy] DaysInYear_bounds [of 1970] show ?thesis
    by (auto simp: YearFromDay_def DayFromYear_def)
qed

lemma month_from_spec:
  "0 \<le> d \<Longrightarrow> d < sum_list ls \<Longrightarrow> month_from ls m0 d = (m, r) \<Longrightarrow>
     \<exists>k. m = m0 + k \<and> k < length ls \<and> 0 \<le> r \<and> r < ls ! k \<and> sum_list (take k ls) + r = d"
proof (induction ls arbitrary: m0 d)
  case Nil
  then show ?case by simp
next
  case (Cons l ls)
  show ?case
  proof (cases "d < l")
    case True
    with Cons.prems have "m = m0 + 0 \<and> 0 < length (l # ls) \<and> 0 \<le> r \<and> r < (l # ls) ! 0
        \<and> sum_list (take 0 (l # ls)) + r = d"
      by simp
    then show ?thesis by blast
  next
    case False
    with Cons.prems have "month_from ls (Suc m0) (d - l) = (m, r)" "0 \<le> d - l" "d - l < sum_list ls"
      by simp_all
    from Cons.IH [OF this(2) this(3) this(1)]
    obtain k where "m = Suc m0 + k" "k < length ls" "0 \<le> r" "r < ls ! k" "sum_list (take k ls) + r = d - l"
      by blast
    then have "m = m0 + Suc k \<and> Suc k < length (l # ls) \<and> 0 \<le> r \<and> r < (l # ls) ! Suc k
        \<and> sum_list (take (Suc k) (l # ls)) + r = d"
      by simp
    then show ?thesis by blast
  qed
qed

lemma month_lengths_sum: "sum_list (month_lengths (leap y)) = DaysInYear y"
  by (simp add: month_lengths_def DaysInYear_def)

lemma month_length_le_31: "k < 12 \<Longrightarrow> month_lengths lp ! k \<le> 31"
proof -
  assume "k < 12"
  then have "k = 0 \<or> k = 1 \<or> k = 2 \<or> k = 3 \<or> k = 4 \<or> k = 5 \<or> k = 6 \<or> k = 7 \<or> k = 8 \<or> k = 9
      \<or> k = 10 \<or> k = 11"
    by arith
  then show ?thesis
    by (auto simp: month_lengths_def)
qed

lemma MonthFromDay_spec:
  assumes "0 \<le> doy" and "doy < DaysInYear y" and "MonthFromDay (leap y) doy = (m, d)"
  shows "m < 12 \<and> 0 \<le> d \<and> d < month_lengths (leap y) ! m \<and> d < 31
         \<and> DayWithinYear (leap y) m + d = doy"
proof -
  from assms month_from_spec [of doy "month_lengths (leap y)" 0 m d]
  obtain k where k: "m = k" "k < length (month_lengths (leap y))" "0 \<le> d"
    "d < month_lengths (leap y) ! k" "sum_list (take k (month_lengths (leap y))) + d = doy"
    by (auto simp: MonthFromDay_def month_lengths_sum)
  then have "m < 12"
    by (simp add: month_lengths_def)
  with k month_length_le_31 [of m "leap y"] show ?thesis
    by (simp add: DayWithinYear_def)
qed

lemma days_up_ge: "365 * int n \<le> days_up n"
proof (induction n)
  case 0
  then show ?case by simp
next
  case (Suc n)
  with DaysInYear_bounds(1) [of "1970 + int n"] show ?case
    by simp
qed

lemma days_down_ge: "365 * int n \<le> days_down n"
proof (induction n)
  case 0
  then show ?case by simp
next
  case (Suc n)
  with DaysInYear_bounds(1) [of "1970 - int (Suc n)"] show ?case
    by simp
qed

text \<open>The years of the days that a time value can reach have at most six digits.\<close>

lemma year_in_range:
  assumes "- 100000000 \<le> day" and "day \<le> 100000000" and "YearFromDay day = (y, doy)"
  shows "- 1000000 < y \<and> y < 1000000"
proof -
  from YearFromDay_spec [OF assms(3)] DaysInYear_bounds(2) [of y]
  have spec: "0 \<le> doy" "doy \<le> 366" "DayFromYear y + doy = day"
    by simp_all
  show ?thesis
  proof (cases "1970 \<le> y")
    case True
    then have "365 * (y - 1970) \<le> DayFromYear y"
      using days_up_ge [of "nat (y - 1970)"] by (simp add: DayFromYear_def)
    with spec assms True show ?thesis by simp
  next
    case False
    then have "DayFromYear y \<le> - (365 * (1970 - y))"
      using days_down_ge [of "nat (1970 - y)"] by (simp add: DayFromYear_def)
    with spec assms False show ?thesis by simp
  qed
qed

subsection \<open>The time within the day\<close>

lemma time_within_day:
  assumes "0 \<le> tod" and "tod < 86400000"
  shows "tod div 3600000 * 3600000 + tod div 60000 mod 60 * 60000 + tod div 1000 mod 60 * 1000
           + tod mod 1000 = (tod::int)"
    and "0 \<le> tod div 3600000" and "tod div 3600000 < 24"
proof -
  have m: "tod div 60000 = tod div 1000 div 60" and h: "tod div 3600000 = tod div 60000 div 60"
    using zdiv_zmult2_eq [of 60 tod 1000] zdiv_zmult2_eq [of 60 tod 60000] by simp_all
  have a: "tod = tod div 1000 * 1000 + tod mod 1000"
    by simp
  have "tod div 1000 = tod div 1000 div 60 * 60 + tod div 1000 mod 60"
    by simp
  with m have b: "tod div 1000 = tod div 60000 * 60 + tod div 1000 mod 60"
    by simp
  have "tod div 60000 = tod div 60000 div 60 * 60 + tod div 60000 mod 60"
    by simp
  with h have c: "tod div 60000 = tod div 3600000 * 60 + tod div 60000 mod 60"
    by simp
  from a b c show "tod div 3600000 * 3600000 + tod div 60000 mod 60 * 60000
      + tod div 1000 mod 60 * 1000 + tod mod 1000 = tod"
    by linarith
  have "tod div 3600000 * 3600000 + tod mod 3600000 = tod" and "0 \<le> tod mod 3600000"
    by simp_all
  with assms show "tod div 3600000 < 24"
    by linarith
  from assms show "0 \<le> tod div 3600000"
    by (simp add: pos_imp_zdiv_nonneg_iff)
qed

subsection \<open>The text as a whole\<close>

lemma two_chars: "length s = 2 \<Longrightarrow> \<exists>c1 c2. s = [c1, c2]"
  by (auto simp: length_Suc_conv eval_nat_numeral)

lemma three_chars: "length s = 3 \<Longrightarrow> \<exists>c1 c2 c3. s = [c1, c2, c3]"
  by (auto simp: length_Suc_conv eval_nat_numeral)

text \<open>The places of the fields in the text after the year.\<close>

lemma layout:
  assumes "length a = 2" and "length b = 2" and "length c = 2" and "length d = 2"
    and "length e = 2" and "length f = 3"
    and "r = ''-'' @ a @ ''-'' @ b @ ''T'' @ c @ '':'' @ d @ '':'' @ e @ ''.'' @ f @ ''Z''"
  shows "date_length r = 6" and "drop 6 r \<noteq> []" and "r ! 6 = CHR ''T''"
    and "take 6 r = ''-'' @ a @ ''-'' @ b"
    and "drop (Suc 6) r = c @ '':'' @ d @ '':'' @ e @ ''.'' @ f @ ''Z''"
proof -
  from assms(1-6) two_chars three_chars obtain a1 a2 b1 b2 c1 c2 d1 d2 e1 e2 f1 f2 f3
    where "a = [a1, a2]" "b = [b1, b2]" "c = [c1, c2]" "d = [d1, d2]" "e = [e1, e2]"
      "f = [f1, f2, f3]"
    by metis
  with assms(7) have r: "r = [CHR ''-'', a1, a2, CHR ''-'', b1, b2, CHR ''T'', c1, c2, CHR '':'',
      d1, d2, CHR '':'', e1, e2, CHR ''.'', f1, f2, f3, CHR ''Z'']"
    and parts: "a = [a1, a2]" "b = [b1, b2]" "c = [c1, c2]" "d = [d1, d2]" "e = [e1, e2]"
      "f = [f1, f2, f3]"
    by simp_all
  show "date_length r = 6"
    by (simp add: r date_length_def)
  show "drop 6 r \<noteq> []" "r ! 6 = CHR ''T''"
    by (simp_all add: r)
  show "take 6 r = ''-'' @ a @ ''-'' @ b"
    "drop (Suc 6) r = c @ '':'' @ d @ '':'' @ e @ ''.'' @ f @ ''Z''"
    by (simp_all add: r parts)
qed

lemma read_day_fields:
  assumes "length a = 2" and "length b = 2"
    and "read_digits 0 a = Some mo" and "read_digits 0 b = Some dd"
    and "1 \<le> mo" and "mo \<le> 12" and "1 \<le> dd" and "int dd \<le> month_lengths (leap y) ! (mo - 1)"
  shows "read_day y (''-'' @ a @ ''-'' @ b) =
           Some (DayFromYear y + DayWithinYear (leap y) (mo - 1) + (int dd - 1))"
proof -
  from assms(1,2) two_chars obtain a1 a2 b1 b2 where parts: "a = [a1, a2]" "b = [b1, b2]"
    by metis
  have "take 2 (drop 1 (''-'' @ a @ ''-'' @ b)) = a" "drop 4 (''-'' @ a @ ''-'' @ b) = b"
    "length (''-'' @ a @ ''-'' @ b) = 6" "''-'' @ a @ ''-'' @ b \<noteq> []"
    by (simp_all add: parts)
  then show ?thesis
    unfolding read_day_def using assms(3-8) by (simp only:) auto
qed

lemma read_zone_Z: "read_zone ''Z'' = Some 0"
  by (simp add: read_zone_def)

lemma read_time_fields:
  assumes "length c = 2" and "length d = 2" and "length e = 2" and "length f = 3"
    and "read_digits 0 c = Some h" and "read_digits 0 d = Some mi"
    and "read_digits 0 e = Some sec" and "read_digits 0 f = Some ms"
    and "h < 24" and "mi \<le> 59" and "sec \<le> 59"
  shows "read_time (c @ '':'' @ d @ '':'' @ e @ ''.'' @ f @ ''Z'') =
           Some (int h * 3600000 + int mi * 60000 + int sec * 1000 + int ms)"
proof -
  define u where "u = c @ '':'' @ d @ '':'' @ e @ ''.'' @ f @ ''Z''"
  from assms(1-4) two_chars three_chars obtain c1 c2 d1 d2 e1 e2 f1 f2 f3
    where parts: "c = [c1, c2]" "d = [d1, d2]" "e = [e1, e2]" "f = [f1, f2, f3]"
    by metis
  have u: "u = [c1, c2, CHR '':'', d1, d2, CHR '':'', e1, e2, CHR ''.'', f1, f2, f3, CHR ''Z'']"
    by (simp add: u_def parts)
  have places: "length u = 13" "u ! 2 = CHR '':''" "u ! 5 = CHR '':''" "u ! 8 = CHR ''.''"
    "take 2 u = c" "take 2 (drop 3 u) = d" "take 2 (drop 6 u) = e" "take 3 (drop 9 u) = f"
    "drop 12 u = ''Z''"
    by (simp_all add: u parts)
  have "read_time u = Some (int h * 3600000 + int mi * 60000 + int sec * 1000 + int ms)"
    unfolding read_time_def Let_def
    using assms(9-11)
    by (simp add: places assms(5-8) read_zone_Z)
  then show ?thesis
    by (simp add: u_def)
qed

text \<open>The standard fixes the time of every text that \<open>toISOString\<close> writes, and it is the
  time written.\<close>

lemma iso_time_toISOString:
  assumes "\<bar>t\<bar> \<le> max_time"
  shows "iso_time (toISOString t) = Some t"
proof -
  define day where "day = t div msPerDay"
  define tod where "tod = t mod msPerDay"
  obtain y doy where year: "YearFromDay day = (y, doy)"
    by (cases "YearFromDay day") blast
  obtain m d where month: "MonthFromDay (leap y) doy = (m, d)"
    by (cases "MonthFromDay (leap y) doy") blast
  have t: "day * msPerDay + tod = t"
    by (simp add: day_def tod_def)
  have tod: "0 \<le> tod" "tod < 86400000"
    by (simp_all add: tod_def msPerDay_def)
  have days: "- 100000000 \<le> day" "day \<le> 100000000"
    using assms by (simp_all add: day_def msPerDay_def max_time_def)
  note yspec = YearFromDay_spec [OF year]
  then have mspec: "m < 12" "0 \<le> d" "d < month_lengths (leap y) ! m" "d < 31"
    "DayWithinYear (leap y) m + d = doy"
    using MonthFromDay_spec [OF _ _ month] by simp_all
  note range = year_in_range [OF days year]
  note clock = time_within_day [OF tod]
  define a where "a = pad 2 (m + 1)"
  define b where "b = pad 2 (nat d + 1)"
  define c where "c = pad 2 (nat (tod div 3600000))"
  define e where "e = pad 2 (nat (tod div 60000 mod 60))"
  define f where "f = pad 2 (nat (tod div 1000 mod 60))"
  define g where "g = pad 3 (nat (tod mod 1000))"
  define r where "r = ''-'' @ a @ ''-'' @ b @ ''T'' @ c @ '':'' @ e @ '':'' @ f @ ''.'' @ g @ ''Z''"
  have shape: "toISOString t = year_chars y @ r"
    using year month
    by (simp add: toISOString_def Let_def day_def tod_def r_def a_def b_def c_def e_def f_def g_def)
  have lengths: "length a = 2" "length b = 2" "length c = 2" "length e = 2" "length f = 2"
    "length g = 3"
    by (simp_all add: a_def b_def c_def e_def f_def g_def)
  note lay = layout [OF lengths r_def]
  have ra: "read_digits 0 a = Some (m + 1)"
    unfolding a_def using mspec(1) by (intro read_pad) simp
  have rb: "read_digits 0 b = Some (nat d + 1)"
    unfolding b_def using mspec(2,4) by (intro read_pad) simp
  have rc: "read_digits 0 c = Some (nat (tod div 3600000))"
    unfolding c_def using clock(2,3) by (intro read_pad) simp
  have re: "read_digits 0 e = Some (nat (tod div 60000 mod 60))"
    unfolding e_def by (intro read_pad) (simp add: nat_less_iff)
  have rf: "read_digits 0 f = Some (nat (tod div 1000 mod 60))"
    unfolding f_def by (intro read_pad) (simp add: nat_less_iff)
  have rg: "read_digits 0 g = Some (nat (tod mod 1000))"
    unfolding g_def by (intro read_pad) (simp add: nat_less_iff)
  have "int (nat d + 1) \<le> month_lengths (leap y) ! (m + 1 - 1)"
    using mspec(2,3) by simp
  from read_day_fields [OF lengths(1,2) ra rb _ _ _ this] mspec(1,2,5) yspec
  have read_the_day: "read_day y (take 6 r) = Some day"
    by (simp add: lay(4))
  have "tod div 60000 mod 60 < 60" and "tod div 1000 mod 60 < 60"
    by simp_all
  then have minute: "nat (tod div 60000 mod 60) \<le> 59" and second: "nat (tod div 1000 mod 60) \<le> 59"
    by linarith+
  have hour: "nat (tod div 3600000) < 24"
    using clock(2,3) by linarith
  have whole: "int (nat (tod div 3600000)) = tod div 3600000"
    "int (nat (tod div 60000 mod 60)) = tod div 60000 mod 60"
    "int (nat (tod div 1000 mod 60)) = tod div 1000 mod 60"
    "int (nat (tod mod 1000)) = tod mod 1000"
    using clock(2) by simp_all
  from read_time_fields [OF lengths(3-6) rc re rf rg hour minute second]
  have read_the_time: "read_time (drop (Suc 6) r) = Some tod"
    using clock(1) by (simp only: lay(5) whole)
  have "iso_time (year_chars y @ r) = Some (day * msPerDay + tod)"
    unfolding iso_time_def Let_def
    using range lay(2,3)
    by (simp only: read_year_chars option.case prod.case lay(1) read_the_day read_the_time) simp
  with shape t show ?thesis
    by simp
qed

text \<open>Every time value of a valid date comes back from its ISO text, whatever the
  engine.\<close>

lemma Date_parse_toISOString:
  assumes "\<bar>t\<bar> \<le> max_time"
  shows "Date_parse hs (toISOString t) = TimeValue t"
  using assms iso_time_toISOString [OF assms]
  by (simp add: Date_parse_def TimeClip_def)
text \<open>The shorter forms of the format are read as well; a local time, a day that the month
  does not have and a text outside the format are left to the engine.\<close>

lemma iso_time_examples:
  "iso_time ''2023-12-14T22:13:20Z'' = Some 1702592000000"
  "iso_time ''2023-12-14T23:13:20+01:00'' = Some 1702592000000"
  "iso_time ''2023-12-14T22:13Z'' = Some 1702591980000"
  "iso_time ''2023-12-14'' = Some 1702512000000"
  "iso_time ''2023-12'' = Some 1701388800000"
  "iso_time ''2023'' = Some 1672531200000"
  "iso_time ''2023-12-14T22:13:20'' = None"
  "iso_time ''2023-02-30'' = None"
  "iso_time ''next month'' = None"
  by code_simp+

section \<open>SessionManager: expiry of the stored session\<close>

text \<open>What \<open>getSession\<close> does with a stored text that parses, in a browser whose storage can
  be read: the three cases of its comparison, and the case that \<open>new Date\<close> throws.\<close>

lemma getSession_parsed:
  assumes "storage_error st = None" and "items st SESSION_KEY = Some (Json sess)"
    and "get_prop sess ''expires_at'' = Inr ea" and "Date_new hs ea = Inr d"
  shows "getSession hs st now =
           (if date_lt d (TimeValue now)
            then (Inr JNull, st\<lparr>items := (items st)(SESSION_KEY := None, HISTORY_KEY := None)\<rparr>)
            else (Inr sess, st))"
  using assms by (simp add: getSession_def getSession_try_def storage_error_None)

lemma getSession_thrown:
  assumes "storage_error st = None" and "items st SESSION_KEY = Some (Json sess)"
    and "get_prop sess ''expires_at'' = Inr ea" and "Date_new hs ea = Inl e"
  shows "getSession hs st now = (Inr JNull, st)"
  using assms by (simp add: getSession_def getSession_try_def storage_error_None)

text \<open>
  Claim C1, as the code has it. A stored session is a JSON text under the session key,
  in a browser whose storage can be read, and its \<open>expires_at\<close> is the time \<open>e\<close> that
  \<open>new Date(session.expires_at)\<close> reads. \<open>getSession\<close> returns the session as long as the
  current time is not after \<open>e\<close>, the instant \<open>e\<close> itself included; once the current time is
  after \<open>e\<close> it returns \<open>null\<close> and has removed the session record and the conversation
  record, and nothing else.
\<close>

theorem C1_getSession_until_expiry:
  assumes "has_window st" and "\<not> denied st"
    and "items st SESSION_KEY = Some (Json sess)"
    and "get_prop sess ''expires_at'' = Inr ea" and "Date_new hs ea = Inr (TimeValue e)"
  shows "getSession hs st now =
           (if e < now
            then (Inr JNull, st\<lparr>items := (items st)(SESSION_KEY := None, HISTORY_KEY := None)\<rparr>)
            else (Inr sess, st))"
  using getSession_parsed [OF _ assms(3,4,5), of now] assms(1,2)
  by (simp add: storage_error_None)

text \<open>The example session is the text that \<open>createSession\<close> writes.\<close>

lemma stored_session_written:
  "JSON_stringify (session_object ''01234567-89ab-4cde-b012-3456789abcde''
     ''f0123456-789a-4bcd-af01-23456789abcd'' 1700000000000 JUndefined) = Json stored_session"
  by code_simp

text \<open>Its \<open>expires_at\<close> is in the Date Time String Format, so every engine reads the same
  time from it.\<close>

lemma stored_session_expiry:
  "get_prop stored_session ''expires_at'' = Inr (JStr ''2023-12-14T22:13:20.000Z'')"
  "Date_new hs (JStr ''2023-12-14T22:13:20.000Z'') = Inr (TimeValue 1702592000000)"
proof -
  show "get_prop stored_session ''expires_at'' = Inr (JStr ''2023-12-14T22:13:20.000Z'')"
    by (simp add: stored_session_def)
  have "toISOString 1702592000000 = ''2023-12-14T22:13:20.000Z''"
    by code_simp
  with Date_parse_toISOString [of 1702592000000 hs]
  show "Date_new hs (JStr ''2023-12-14T22:13:20.000Z'') = Inr (TimeValue 1702592000000)"
    by (simp add: max_time_def)
qed

theorem C1_witness:
  "getSession strict session_browser 1702592000001 =
     (Inr JNull, session_browser\<lparr>items := (items session_browser)(SESSION_KEY := None, HISTORY_KEY := None)\<rparr>)
   \<and> getSession strict session_browser 1702591999999 = (Inr stored_session, session_browser)"
  using C1_getSession_until_expiry [of session_browser stored_session _ strict 1702592000000 1702592000001]
        C1_getSession_until_expiry [of session_browser stored_session _ strict 1702592000000 1702591999999]
        stored_session_expiry
  by (simp add: session_browser_def)

text \<open>
  Claim C1 as the specification words it fails at the instant of expiry: with the current
  time equal to \<open>expires_at\<close>, which is not before \<open>expires_at\<close>, the session is still
  returned and nothing is deleted.
\<close>

theorem C1_counterexample:
  "Date_new strict (JStr ''2023-12-14T22:13:20.000Z'') = Inr (TimeValue 1702592000000)
   \<and> getSession strict session_browser 1702592000000 = (Inr stored_session, session_browser)"
  using getSession_parsed [of session_browser stored_session _ strict "TimeValue 1702592000000" 1702592000000]
        stored_session_expiry
  by (simp add: session_browser_def storage_error_def)

text \<open>
  Claim C10, as the code has it. The stored session text parses, in a browser whose
  storage can be read. When \<open>new Date(session.expires_at)\<close> is an invalid date, \<open>getSession\<close>
  returns the session at every current time and leaves the storage as it is. When
  \<open>new Date(session.expires_at)\<close> throws, \<open>getSession\<close> returns \<open>null\<close> at every current time,
  and it leaves the storage as it is, too.
\<close>

theorem C10_expiry_not_a_date:
  assumes "has_window st" and "\<not> denied st"
    and "items st SESSION_KEY = Some (Json sess)"
    and "get_prop sess ''expires_at'' = Inr ea"
  shows "(Date_new hs ea = Inr Invalid_Date \<longrightarrow> getSession hs st now = (Inr sess, st))
       \<and> ((\<exists>e. Date_new hs ea = Inl e) \<longrightarrow> getSession hs st now = (Inr JNull, st))"
proof -
  have st: "storage_error st = None"
    using assms(1,2) by (simp add: storage_error_None)
  show ?thesis
    using getSession_parsed [OF st assms(3,4), of hs Invalid_Date now]
          getSession_thrown [OF st assms(3,4), of hs _ now]
    by auto
qed

text \<open>The values of \<open>expires_at\<close> on which \<open>new Date\<close> throws: an object with an own property
  \<open>toString\<close>, and an array whose text needs the text of such an object.\<close>

lemma Date_new_throws:
  "(\<exists>e. Date_new hs v = Inl e) \<longleftrightarrow>
     (\<exists>e. js_string v = Inl e) \<and> (case v of JArr xs \<Rightarrow> True | JObj kvs \<Rightarrow> True | _ \<Rightarrow> False)"
  by (cases v) (auto split: sum.splits)

lemma undated_session_expiry:
  "get_prop undated_session ''expires_at'' = Inr JUndefined"
  "Date_new hs JUndefined = Inr Invalid_Date"
  by (simp_all add: undated_session_def)

lemma vague_session_expiry:
  "get_prop vague_session ''expires_at'' = Inr (JStr ''next month'')"
  "Date_new strict (JStr ''next month'') = Inr Invalid_Date"
  by (simp_all add: vague_session_def Date_parse_def iso_time_examples strict_def)

lemma opaque_session_expiry:
  "get_prop opaque_session ''expires_at'' = Inr (JObj [(''toString'', JNum 1)])"
  "Date_new hs (JObj [(''toString'', JNum 1)]) =
     Inl (Thrown TypeError ''Cannot convert object to primitive value'')"
  "Date_new hs (JArr [JObj [(''toString'', JNum 1)]]) =
     Inl (Thrown TypeError ''Cannot convert object to primitive value'')"
  by (simp_all add: opaque_session_def)

theorem C10_witness:
  "getSession strict undated_browser 0 = (Inr undated_session, undated_browser)
   \<and> getSession strict undated_browser 8640000000000000 = (Inr undated_session, undated_browser)
   \<and> getSession strict vague_browser 0 = (Inr vague_session, vague_browser)
   \<and> getSession strict vague_browser 8640000000000000 = (Inr vague_session, vague_browser)
   \<and> getSession strict opaque_browser 0 = (Inr JNull, opaque_browser)
   \<and> getSession strict opaque_browser 8640000000000000 = (Inr JNull, opaque_browser)"
  using C10_expiry_not_a_date [of undated_browser undated_session _ strict 0]
        C10_expiry_not_a_date [of undated_browser undated_session _ strict 8640000000000000]
        C10_expiry_not_a_date [of vague_browser vague_session _ strict 0]
        C10_expiry_not_a_date [of vague_browser vague_session _ strict 8640000000000000]
        C10_expiry_not_a_date [of opaque_browser opaque_session _ strict 0]
        C10_expiry_not_a_date [of opaque_browser opaque_session _ strict 8640000000000000]
        undated_session_expiry vague_session_expiry opaque_session_expiry
  by (simp add: undated_browser_def vague_browser_def opaque_browser_def)

text \<open>
  Claim C10 as the specification words it fails for an \<open>expires_at\<close> that is no date and
  on which \<open>new Date\<close> throws: the stored text \<open>{"id": ..., "expires_at": {"toString": 1}}\<close>
  parses, no date can be read from its \<open>expires_at\<close>, and \<open>getSession\<close> returns \<open>null\<close>, not
  the session.
\<close>

theorem C10_counterexample:
  "JSON_parse (Json opaque_session) = Inr opaque_session
   \<and> get_prop opaque_session ''expires_at'' = Inr (JObj [(''toString'', JNum 1)])
   \<and> Date_new strict (JObj [(''toString'', JNum 1)]) =
       Inl (Thrown TypeError ''Cannot convert object to primitive value'')
   \<and> getSession strict opaque_browser 1700000000000 = (Inr JNull, opaque_browser)
   \<and> fst (getSession strict opaque_browser 1700000000000) \<noteq> Inr opaque_session"
  using getSession_thrown [of opaque_browser opaque_session _ strict _ 1700000000000]
        opaque_session_expiry
  by (simp add: opaque_browser_def storage_error_def opaque_session_def)
section \<open>SessionManager: a saved conversation reads back\<close>

lemma to_json_props_plain:
  assumes "list_all (\<lambda>(k, v). json_or_undefined v) kvs"
  shows "to_json_props kvs = filter (\<lambda>(k, v). v \<noteq> JUndefined) kvs"
  using assms
  by (induction kvs) (auto simp: json_or_undefined_def)

lemma stored_props:
  assumes "distinct (map fst kvs)" and "map_of kvs ''timestamp'' = Some (JDate d)"
    and "list_all (\<lambda>(k, v). k = ''timestamp'' \<or> json_or_undefined v) kvs"
  shows "map_of (to_json_props (set_prop ''timestamp'' (JStr s) kvs)) ''timestamp'' = Some (JStr s)"
    and "set_prop ''timestamp'' (JDate d) (to_json_props (set_prop ''timestamp'' (JStr s) kvs)) =
           filter (\<lambda>(k, v). v \<noteq> JUndefined) kvs"
  using assms
proof (induction kvs)
  case Nil
  {
    case 1 then show ?case by simp
  next
    case 2 then show ?case by simp
  }
next
  case (Cons kv kvs)
  obtain k v where kv: "kv = (k, v)" by (cases kv)
  {
    case 1
    show ?case
    proof (cases "k = ''timestamp''")
      case True
      with kv show ?thesis by simp
    next
      case False
      with kv 1 Cons.IH(1) show ?thesis
        by (auto simp: json_or_undefined_def)
    qed
  next
    case 2
    show ?case
    proof (cases "k = ''timestamp''")
      case True
      with kv 2 have "list_all (\<lambda>(k, v). json_or_undefined v) kvs"
        by (auto simp: list_all_iff rev_image_eqI)
      with True kv 2 show ?thesis
        by (simp add: to_json_props_plain)
    next
      case False
      with kv 2 Cons.IH(2) show ?thesis
        by (auto simp: json_or_undefined_def)
    qed
  }
qed

text \<open>What \<open>saveConversation\<close> writes for a message, and what the message comes back as.\<close>

lemma serialize_chat_messages:
  assumes "list_all chat_message msgs"
  shows "\<exists>stored. serialize_messages msgs = Inr stored
           \<and> revive_messages hs (to_json_elems stored) = Inr (map without_undefined msgs)"
  using assms
proof (induction msgs)
  case Nil
  then show ?case by simp
next
  case (Cons msg msgs)
  then obtain stored where rest: "serialize_messages msgs = Inr stored"
    "revive_messages hs (to_json_elems stored) = Inr (map without_undefined msgs)"
    by auto
  from Cons.prems obtain kvs t where msg: "msg = JObj kvs" "distinct (map fst kvs)"
    "map_of kvs ''timestamp'' = Some (JDate (TimeValue t))" "\<bar>t\<bar> \<le> max_time"
    "list_all (\<lambda>(k, v). k = ''timestamp'' \<or> json_or_undefined v) kvs"
    by (auto simp: chat_message_def split: jsval.splits option.splits jsdate.splits)
  note props = stored_props [OF msg(2,3,5), of "toISOString t"]
  have "serialize_messages (msg # msgs) =
          Inr (JObj (set_prop ''timestamp'' (JStr (toISOString t)) kvs) # stored)"
    using msg rest by simp
  moreover have "revive_messages hs
      (to_json_elems (JObj (set_prop ''timestamp'' (JStr (toISOString t)) kvs) # stored)) =
      Inr (map without_undefined (msg # msgs))"
    using msg rest props Date_parse_toISOString [OF msg(4), of hs]
    by (simp add: without_undefined_def)
  ultimately show ?case by blast
qed

text \<open>
  Claim C4, as the code has it. In a browser whose storage can be read and written, for
  every list of messages (objects whose timestamp is a valid date and whose other
  properties are JSON data or \<open>undefined\<close>), \<open>getConversationHistory\<close> right after
  \<open>saveConversation\<close> returns the messages in their order, each with the properties it had
  and with its timestamp as a \<open>Date\<close> of the same time value; only a property whose value
  is \<open>undefined\<close> does not come back.
\<close>

theorem C4_saved_conversation_reads_back:
  assumes "has_window st" and "\<not> denied st" and "\<not> full st"
    and "list_all chat_message msgs"
  shows "getConversationHistory hs (snd (saveConversation st msgs)) =
           (Inr (JArr (map without_undefined msgs)), snd (saveConversation st msgs))"
proof -
  from serialize_chat_messages [OF assms(4), of hs] obtain stored
    where stored: "serialize_messages msgs = Inr stored"
      "revive_messages hs (to_json_elems stored) = Inr (map without_undefined msgs)"
    by blast
  from assms(1-3) have ok: "storage_error st = None"
    by (simp add: storage_error_None)
  with assms(1,3) stored(1)
  have saved: "snd (saveConversation st msgs) =
      st\<lparr>items := (items st)(HISTORY_KEY \<mapsto> Json (JArr (to_json_elems stored)))\<rparr>"
    by (simp add: saveConversation_def JSON_stringify_def)
  show ?thesis
    unfolding saved using assms(1) ok stored(2)
    by (simp add: getConversationHistory_def getConversationHistory_try_def)
qed

lemma example_messages:
  "chat_message (user_message ''What is ROS 2?'' 1700000001000)" "chat_message answer_message"
  "without_undefined (user_message ''What is ROS 2?'' 1700000001000) =
     user_message ''What is ROS 2?'' 1700000001000"
  "without_undefined answer_message = answer_message"
  by (simp_all add: chat_message_def without_undefined_def user_message_def answer_message_def
        json_or_undefined_def max_time_def)

theorem C4_witness:
  "fst (getConversationHistory strict
          (snd (saveConversation empty_browser
                  [user_message ''What is ROS 2?'' 1700000001000, answer_message]))) =
     Inr (JArr [user_message ''What is ROS 2?'' 1700000001000, answer_message])"
  using C4_saved_conversation_reads_back [of empty_browser
          "[user_message ''What is ROS 2?'' 1700000001000, answer_message]" strict]
  by (simp add: example_messages empty_browser_def)

text \<open>
  Claim C4 as the specification words it fails in three ways: a message whose timestamp
  is an invalid date makes \<open>toISOString\<close> throw, so nothing is written; outside a browser
  nothing is written; and over the quota nothing is written. Each time
  \<open>getConversationHistory\<close> returns \<open>null\<close>, not the list.
\<close>

theorem C4_counterexample:
  "fst (getConversationHistory strict (snd (saveConversation empty_browser [undated_message]))) = Inr JNull
   \<and> fst (getConversationHistory strict
            (snd (saveConversation no_browser [user_message ''What is ROS 2?'' 1700000001000]))) =
       Inr JNull
   \<and> fst (getConversationHistory strict
            (snd (saveConversation full_browser [user_message ''What is ROS 2?'' 1700000001000]))) =
       Inr JNull"
  by (simp add: saveConversation_def getConversationHistory_def getConversationHistory_try_def
        undated_message_def user_message_def empty_browser_def no_browser_def full_browser_def
        storage_error_def setItem_def getItem_def)

section \<open>SessionManager: identifiers\<close>

lemma returns_Inr [simp]: "returns (Inr v)" and returns_Inl [simp]: "\<not> returns (Inl e)"
  by (simp_all add: returns_def)

lemma returns_catch_all [simp]: "returns (fst (catch_all r d))"
  by (cases r) (auto simp: catch_all_def split: sum.splits)

lemma generateUUID_draws: "snd (generateUUID rnd i) = i + 31"
  by (simp add: generateUUID_def split_def Let_def)

lemma generateUUID_nonempty: "fst (generateUUID rnd i) \<noteq> []"
  by (simp add: generateUUID_def split_def Let_def)

lemma hex_char_inj: "hex_char a = hex_char b \<Longrightarrow> a = b"
proof -
  assume eq: "hex_char a = hex_char b"
  have d: "distinct ''0123456789abcdef''" by simp
  have la: "unat a < length ''0123456789abcdef''" and lb: "unat b < length ''0123456789abcdef''"
    using unsigned_less [of a, where ?'a = nat] unsigned_less [of b, where ?'a = nat] by simp_all
  from eq have "''0123456789abcdef'' ! unat a = ''0123456789abcdef'' ! unat b"
    by (simp add: hex_char_def)
  with d la lb have "unat a = unat b"
    by (simp only: nth_eq_iff_index_eq)
  then show "a = b" by (rule unsigned_word_eqI)
qed

lemma generateUUID_draws_equal:
  assumes "fst (generateUUID rnd i) = fst (generateUUID rnd j)" and "n < 31" and "n \<noteq> 15"
  shows "rnd (i + n) = rnd (j + n)"
proof -
  from assms(1) have "\<forall>m<31. m \<noteq> 15 \<longrightarrow> rnd (i + m) = rnd (j + m)"
    by (auto simp: generateUUID_def split_def Let_def eval_nat_numeral All_less_Suc dest!: hex_char_inj)
  with assms(2,3) show ?thesis by blast
qed

lemma getOrCreateBrowserId_cases:
  "getOrCreateBrowserId st rnd i =
     (if storage_error st \<noteq> None
      then (Inr (fst (generateUUID rnd i)), st, i + 31)
      else case items st BROWSER_ID_KEY of
             None \<Rightarrow>
               (if full st then (Inr (fst (generateUUID rnd (i + 31))), st, i + 62)
                else (Inr (fst (generateUUID rnd i)),
                      st\<lparr>items := (items st)(BROWSER_ID_KEY \<mapsto> Raw (fst (generateUUID rnd i)))\<rparr>, i + 31))
           | Some stored \<Rightarrow>
               (if stored = Raw [] then
                  (if full st then (Inr (fst (generateUUID rnd (i + 31))), st, i + 62)
                   else (Inr (fst (generateUUID rnd i)),
                         st\<lparr>items := (items st)(BROWSER_ID_KEY \<mapsto> Raw (fst (generateUUID rnd i)))\<rparr>, i + 31))
                else (Inr (text_chars stored), st, i)))"
proof (cases "storage_error st")
  case None
  then show ?thesis
    using generateUUID_draws [of rnd i] generateUUID_draws [of rnd "i + 31"]
    by (auto simp: getOrCreateBrowserId_def storage_error_None split_def Let_def split: option.splits)
next
  case (Some e)
  then show ?thesis
    using generateUUID_draws [of rnd i]
    by (auto simp: getOrCreateBrowserId_def split_def Let_def storage_error_def split: if_splits)
qed

lemma createSession_cases:
  "createSession st now rnd i pc =
     (case getOrCreateBrowserId st rnd (i + 31) of
        (Inl e, st1, k) \<Rightarrow> (Inl e, st1, k)
      | (Inr b, st1, k) \<Rightarrow>
          (Inr (session_object (fst (generateUUID rnd i)) b now pc),
           (if storage_error st1 = None \<and> \<not> full st1
            then st1\<lparr>items := (items st1)(SESSION_KEY \<mapsto>
                   JSON_stringify (session_object (fst (generateUUID rnd i)) b now pc))\<rparr>
            else st1),
           k))"
  using generateUUID_draws [of rnd i]
  by (auto simp: createSession_def session_object_def SESSION_EXPIRY_DAYS_def split_def Let_def
        storage_error_def setItem_def split: sum.splits prod.splits)

lemma createSession_returns: "returns (fst (createSession st now rnd i pc))"
  by (simp add: createSession_cases getOrCreateBrowserId_cases split: option.splits)

section \<open>SessionManager: creating a session\<close>

text \<open>
  Claim C5, as the code has it. Every call of \<open>createSession\<close> returns a session whose
  identifier is generated from the next 31 draws of the random source, whose \<open>created_at\<close>
  is the current time and whose \<open>expires_at\<close> is that time plus 30 days. In a browser whose
  storage can be read and written, the call stores the session under the session key,
  whatever was there. In a browser whose storage can be read, and can be written or
  already holds an identifier of the browser, the next call returns the same
  \<open>anonymous_browser_id\<close>. The session identifier of the next call is generated from
  later draws, and it differs from this one as soon as one of the draws behind an \<open>x\<close> of
  the template differs (\<open>n\<close> numbers the draws of one identifier, the 16th being the \<open>y\<close>).
\<close>

theorem C5_createSession:
  "\<exists>b. fst (createSession st now rnd i pc) = Inr (session_object (fst (generateUUID rnd i)) b now pc)
     \<and> i + 31 \<le> snd (snd (createSession st now rnd i pc))
     \<and> (has_window st \<and> \<not> denied st \<and> \<not> full st \<longrightarrow>
          items (fst (snd (createSession st now rnd i pc))) SESSION_KEY =
            Some (JSON_stringify (session_object (fst (generateUUID rnd i)) b now pc)))
     \<and> (has_window st \<and> \<not> denied st \<and> (\<not> full st \<or> \<not> absent (items st BROWSER_ID_KEY)) \<longrightarrow>
          fst (createSession (fst (snd (createSession st now rnd i pc))) now' rnd
                 (snd (snd (createSession st now rnd i pc))) pc') =
            Inr (session_object
                   (fst (generateUUID rnd (snd (snd (createSession st now rnd i pc))))) b now' pc'))
     \<and> (n < 31 \<and> n \<noteq> 15 \<and> rnd (i + n) \<noteq> rnd (snd (snd (createSession st now rnd i pc)) + n) \<longrightarrow>
          fst (generateUUID rnd i) \<noteq> fst (generateUUID rnd (snd (snd (createSession st now rnd i pc)))))"
proof -
  have fresh: "n < 31 \<and> n \<noteq> 15 \<and> rnd (i + n) \<noteq> rnd (k + n) \<longrightarrow>
      fst (generateUUID rnd i) \<noteq> fst (generateUUID rnd k)" for k
    using generateUUID_draws_equal [of rnd i k n] by blast
  show ?thesis
    using generateUUID_nonempty [of rnd "i + 31"] fresh
    by (auto simp: createSession_cases getOrCreateBrowserId_cases storage_error_None
          split: option.splits)
qed

theorem C5_witness:
  "fst (createSession empty_browser 1700000000000 counting 0 JUndefined) =
     Inr (session_object ''01234567-89ab-4cde-b012-3456789abcde''
            ''f0123456-789a-4bcd-af01-23456789abcd'' 1700000000000 JUndefined)
   \<and> TimeClip (1700000000000 + 30 * 24 * 60 * 60 * 1000) = TimeValue 1702592000000
   \<and> items (fst (snd (createSession empty_browser 1700000000000 counting 0 JUndefined))) SESSION_KEY =
       Some (JSON_stringify (session_object ''01234567-89ab-4cde-b012-3456789abcde''
               ''f0123456-789a-4bcd-af01-23456789abcd'' 1700000000000 JUndefined))
   \<and> fst (createSession (fst (snd (createSession empty_browser 1700000000000 counting 0 JUndefined)))
            1700000060000 counting 62 (JStr ''/docs/intro'')) =
       Inr (session_object ''ef012345-6789-4abc-9ef0-123456789abc''
              ''f0123456-789a-4bcd-af01-23456789abcd'' 1700000060000 (JStr ''/docs/intro''))
   \<and> fst (generateUUID counting 0) \<noteq> fst (generateUUID counting 62)"
proof -
  have first: "fst (createSession empty_browser 1700000000000 counting 0 JUndefined) =
      Inr (session_object ''01234567-89ab-4cde-b012-3456789abcde''
             ''f0123456-789a-4bcd-af01-23456789abcd'' 1700000000000 JUndefined)"
    by code_simp
  have draws: "snd (snd (createSession empty_browser 1700000000000 counting 0 JUndefined)) = 62"
    by code_simp
  have uuid0: "fst (generateUUID counting 0) = ''01234567-89ab-4cde-b012-3456789abcde''"
    and uuid62: "fst (generateUUID counting 62) = ''ef012345-6789-4abc-9ef0-123456789abc''"
    by code_simp+
  have clip: "TimeClip (1700000000000 + 30 * 24 * 60 * 60 * 1000) = TimeValue 1702592000000"
    by (simp add: TimeClip_def max_time_def)
  have browser: "has_window empty_browser" "\<not> denied empty_browser" "\<not> full empty_browser"
    by (simp_all add: empty_browser_def)
  have differ: "counting (0 + 0) \<noteq> counting (62 + 0)"
    by (simp add: counting_def)
  from C5_createSession [of empty_browser 1700000000000 counting 0 JUndefined
         1700000060000 "JStr ''/docs/intro''" 0]
  obtain b where fresh: "fst (generateUUID counting 0) \<noteq>
        fst (generateUUID counting (snd (snd (createSession empty_browser 1700000000000 counting 0 JUndefined))))"
    and b:
    "fst (createSession empty_browser 1700000000000 counting 0 JUndefined) =
       Inr (session_object (fst (generateUUID counting 0)) b 1700000000000 JUndefined)"
    "items (fst (snd (createSession empty_browser 1700000000000 counting 0 JUndefined))) SESSION_KEY =
       Some (JSON_stringify (session_object (fst (generateUUID counting 0)) b 1700000000000 JUndefined))"
    "fst (createSession (fst (snd (createSession empty_browser 1700000000000 counting 0 JUndefined)))
            1700000060000 counting
            (snd (snd (createSession empty_browser 1700000000000 counting 0 JUndefined)))
            (JStr ''/docs/intro'')) =
       Inr (session_object
              (fst (generateUUID counting
                      (snd (snd (createSession empty_browser 1700000000000 counting 0 JUndefined)))))
              b 1700000060000 (JStr ''/docs/intro''))"
    using browser differ draws by auto
  from b(1) first have "b = ''f0123456-789a-4bcd-af01-23456789abcd''"
    by (simp add: session_object_def)
  with b first draws uuid0 uuid62 clip fresh show ?thesis
    by simp
qed

text \<open>
  Claim C5 as the specification words it fails in three ways. Outside a browser the call
  stores nothing. In a browser whose storage is over its quota, two successive calls
  return two different values of \<open>anonymous_browser_id\<close>: the identifier cannot be kept, and
  each call generates one anew. And where the random source repeats its draws, two
  successive calls return the same session identifier.
\<close>

theorem C5_counterexample:
  "items (fst (snd (createSession no_browser 1700000000000 counting 0 JUndefined))) SESSION_KEY = None
   \<and> fst (createSession full_browser 1700000000000 counting 0 JUndefined) =
       Inr (session_object ''01234567-89ab-4cde-b012-3456789abcde''
              ''ef012345-6789-4abc-9ef0-123456789abc'' 1700000000000 JUndefined)
   \<and> snd (snd (createSession full_browser 1700000000000 counting 0 JUndefined)) = 93
   \<and> fst (createSession (fst (snd (createSession full_browser 1700000000000 counting 0 JUndefined)))
            1700000060000 counting 93 JUndefined) =
       Inr (session_object ''def01234-5678-49ab-8def-0123456789ab''
              ''bcdef012-3456-4789-abcd-ef0123456789'' 1700000060000 JUndefined)
   \<and> fst (createSession empty_browser 1700000000000 zeros 0 JUndefined) =
       Inr (session_object ''00000000-0000-4000-8000-000000000000''
              ''00000000-0000-4000-8000-000000000000'' 1700000000000 JUndefined)
   \<and> snd (snd (createSession empty_browser 1700000000000 zeros 0 JUndefined)) = 62
   \<and> fst (createSession (fst (snd (createSession empty_browser 1700000000000 zeros 0 JUndefined)))
            1700000060000 zeros 62 JUndefined) =
       Inr (session_object ''00000000-0000-4000-8000-000000000000''
              ''00000000-0000-4000-8000-000000000000'' 1700000060000 JUndefined)"
  by (intro conjI; code_simp)

section \<open>SessionManager: failures stay inside\<close>

lemma no_storage_reads:
  assumes "storage_error st \<noteq> None"
  shows "getSession hs st now = (Inr JNull, st)" and "getConversationHistory hs st = (Inr JNull, st)"
  using assms
  by (auto simp: getSession_def getSession_try_def getConversationHistory_def
        getConversationHistory_try_def)

lemma no_storage_writes:
  assumes "storage_error st \<noteq> None"
  shows "saveConversation st msgs = (Inr JUndefined, st)"
    and "clearConversation st = (Inr JUndefined, st)"
    and "deleteSession st = (Inr JUndefined, st)"
    and "fst (snd (createSession st now rnd i pc)) = st"
  using assms
  by (auto simp: saveConversation_def clearConversation_def deleteSession_def
        createSession_cases getOrCreateBrowserId_cases split: sum.splits)

lemma malformed_reads:
  "items st SESSION_KEY = Some (Raw s) \<Longrightarrow> getSession hs st now = (Inr JNull, st)"
  "items st HISTORY_KEY = Some (Raw s) \<Longrightarrow> getConversationHistory hs st = (Inr JNull, st)"
  by (cases "storage_error st";
      simp add: getSession_def getSession_try_def getConversationHistory_def
        getConversationHistory_try_def)+

lemma full_writes:
  assumes "full st"
  shows "saveConversation st msgs = (Inr JUndefined, st)"
    and "fst (snd (createSession st now rnd i pc)) = st"
  using assms
  by (cases "storage_error st";
      auto simp: saveConversation_def createSession_cases getOrCreateBrowserId_cases
        split: sum.splits option.splits)+

text \<open>
  Claim C9, as the code has it. No method of the session store throws, whatever the
  storage holds and however it fails. Where the storage cannot be reached (outside a
  browser, or in a browser that refuses the access), \<open>getSession\<close> and
  \<open>getConversationHistory\<close> return \<open>null\<close>, \<open>saveConversation\<close>, \<open>clearConversation\<close> and
  \<open>deleteSession\<close> return without an effect, and \<open>createSession\<close> writes nothing but still
  returns a session it has built. A stored text that is not JSON reads as \<open>null\<close>, and a
  write that exceeds the quota leaves the storage as it was.
\<close>

theorem C9_session_store_fails_soft:
  "returns (fst (getSession hs st now)) \<and> returns (fst (createSession st now rnd i pc))
   \<and> returns (fst (saveConversation st msgs)) \<and> returns (fst (getConversationHistory hs st))
   \<and> returns (fst (clearConversation st)) \<and> returns (fst (deleteSession st))
   \<and> (\<not> has_window st \<or> denied st \<longrightarrow>
        getSession hs st now = (Inr JNull, st)
        \<and> getConversationHistory hs st = (Inr JNull, st)
        \<and> saveConversation st msgs = (Inr JUndefined, st)
        \<and> clearConversation st = (Inr JUndefined, st)
        \<and> deleteSession st = (Inr JUndefined, st)
        \<and> fst (snd (createSession st now rnd i pc)) = st
        \<and> (\<exists>b. fst (createSession st now rnd i pc) =
                  Inr (session_object (fst (generateUUID rnd i)) b now pc)))
   \<and> (items st SESSION_KEY = Some (Raw s) \<longrightarrow> getSession hs st now = (Inr JNull, st))
   \<and> (items st HISTORY_KEY = Some (Raw s) \<longrightarrow> getConversationHistory hs st = (Inr JNull, st))
   \<and> (full st \<longrightarrow> saveConversation st msgs = (Inr JUndefined, st)
                 \<and> fst (snd (createSession st now rnd i pc)) = st)"
proof -
  have total: "returns (fst (getSession hs st now))" "returns (fst (saveConversation st msgs))"
    "returns (fst (getConversationHistory hs st))" "returns (fst (clearConversation st))"
    "returns (fst (deleteSession st))"
    by (simp_all add: getSession_def saveConversation_def getConversationHistory_def
          clearConversation_def deleteSession_def)
  have built: "\<exists>b. fst (createSession st now rnd i pc) =
      Inr (session_object (fst (generateUUID rnd i)) b now pc)"
    by (auto simp: createSession_cases getOrCreateBrowserId_cases split: option.splits)
  have unreachable: "getSession hs st now = (Inr JNull, st)
        \<and> getConversationHistory hs st = (Inr JNull, st)
        \<and> saveConversation st msgs = (Inr JUndefined, st)
        \<and> clearConversation st = (Inr JUndefined, st)
        \<and> deleteSession st = (Inr JUndefined, st)
        \<and> fst (snd (createSession st now rnd i pc)) = st"
    if "\<not> has_window st \<or> denied st"
  proof -
    from that have e: "storage_error st \<noteq> None"
      by (auto simp: storage_error_def)
    show ?thesis
      by (simp add: no_storage_reads [OF e] no_storage_writes [OF e])
  qed
  have malformed: "items st SESSION_KEY = Some (Raw s) \<longrightarrow> getSession hs st now = (Inr JNull, st)"
    "items st HISTORY_KEY = Some (Raw s) \<longrightarrow> getConversationHistory hs st = (Inr JNull, st)"
    by (simp_all add: malformed_reads)
  have quota: "full st \<longrightarrow> saveConversation st msgs = (Inr JUndefined, st)
                 \<and> fst (snd (createSession st now rnd i pc)) = st"
    by (simp add: full_writes)
  from total createSession_returns [of st now rnd i pc] built unreachable malformed quota
  show ?thesis by blast
qed

theorem C9_witness:
  "getSession strict no_browser 0 = (Inr JNull, no_browser)
   \<and> getConversationHistory strict no_browser = (Inr JNull, no_browser)
   \<and> saveConversation no_browser [] = (Inr JUndefined, no_browser)
   \<and> clearConversation no_browser = (Inr JUndefined, no_browser)
   \<and> deleteSession no_browser = (Inr JUndefined, no_browser)
   \<and> fst (snd (createSession no_browser 0 counting 0 JUndefined)) = no_browser
   \<and> getSession strict locked_browser 0 = (Inr JNull, locked_browser)
   \<and> saveConversation locked_browser [] = (Inr JUndefined, locked_browser)
   \<and> getSession strict garbled_browser 0 = (Inr JNull, garbled_browser)
   \<and> getConversationHistory strict garbled_browser = (Inr JNull, garbled_browser)
   \<and> saveConversation full_browser [] = (Inr JUndefined, full_browser)"
  using C9_session_store_fails_soft [of strict no_browser 0 counting 0 JUndefined "[]" "[]"]
        C9_session_store_fails_soft [of strict locked_browser 0 counting 0 JUndefined "[]" "[]"]
        C9_session_store_fails_soft [of strict garbled_browser 0 counting 0 JUndefined "[]" "''{id:''"]
        C9_session_store_fails_soft [of strict garbled_browser 0 counting 0 JUndefined "[]" "''[{''"]
        C9_session_store_fails_soft [of strict full_browser 0 counting 0 JUndefined "[]" "[]"]
  by (simp add: no_browser_def locked_browser_def garbled_browser_def full_browser_def)

text \<open>
  Claim C9 as the specification words it fails for \<open>createSession\<close>: outside a browser it
  does not return absence, it returns the session it has built.
\<close>

theorem C9_counterexample:
  "\<not> has_window no_browser
   \<and> fst (createSession no_browser 1700000000000 counting 0 JUndefined) =
       Inr (session_object ''01234567-89ab-4cde-b012-3456789abcde''
              ''f0123456-789a-4bcd-af01-23456789abcd'' 1700000000000 JUndefined)"
  by (intro conjI; code_simp)

section \<open>ChatWidget: the example runs\<close>

lemma uuid_counting:
  "fst (generateUUID counting 0) = ''01234567-89ab-4cde-b012-3456789abcde''"
  "fst (generateUUID counting 31) = ''f0123456-789a-4bcd-af01-23456789abcd''"
  by code_simp+

text \<open>The component after its mount in the empty browser: a new session, stored, and no
  messages.\<close>

lemma mounted_eq:
  "mount strict empty_browser base counting 0 1700000000000 =
     \<lparr>ui = initial_widget\<lparr>session := session_object ''01234567-89ab-4cde-b012-3456789abcde''
                                         ''f0123456-789a-4bcd-af01-23456789abcd'' 1700000000000 JUndefined\<rparr>,
      store = empty_browser\<lparr>items :=
                [BROWSER_ID_KEY \<mapsto> Raw ''f0123456-789a-4bcd-af01-23456789abcd'',
                 SESSION_KEY \<mapsto> JSON_stringify (session_object ''01234567-89ab-4cde-b012-3456789abcde''
                                         ''f0123456-789a-4bcd-af01-23456789abcd'' 1700000000000 JUndefined)]\<rparr>,
      calls = [], apiUrl = base, random = counting, drawn = 62\<rparr>"
  by (simp add: mount_def getSession_def getSession_try_def createSession_cases
        getOrCreateBrowserId_cases getConversationHistory_def getConversationHistory_try_def
        empty_browser_def storage_error_def uuid_counting session_object_def)

lemma asking_eq:
  "asking =
     \<lparr>ui = \<lparr>messages = [user_message ''What is ROS 2?'' 1700000001000], isLoading = True,
            isOpen = True, selectedText = [],
            session = session_object ''01234567-89ab-4cde-b012-3456789abcde''
                        ''f0123456-789a-4bcd-af01-23456789abcd'' 1700000000000 JUndefined,
            inputValue = [], showMenu = False, showSources = (\<lambda>k. False)\<rparr>,
      store = empty_browser\<lparr>items :=
                [BROWSER_ID_KEY \<mapsto> Raw ''f0123456-789a-4bcd-af01-23456789abcd'',
                 SESSION_KEY \<mapsto> JSON_stringify (session_object ''01234567-89ab-4cde-b012-3456789abcde''
                                         ''f0123456-789a-4bcd-af01-23456789abcd'' 1700000000000 JUndefined)]\<rparr>,
      calls = [\<lparr>sent = query_request ''http://localhost:8000'' ''What is ROS 2?''
                         (JStr ''01234567-89ab-4cde-b012-3456789abcde'') (JStr ''/docs/intro''),
                closure_messages = [],
                userMessage = user_message ''What is ROS 2?'' 1700000001000\<rparr>],
      apiUrl = ''http://localhost:8000'', random = counting, drawn = 62\<rparr>"
  by (simp add: asking_def run_def mounted_eq step_def handleSend_def initial_widget_def
        trim_def is_space_def session_object_def Let_def)

section \<open>ChatWidget: one send at a time\<close>

lemma handleSend_one_call:
  assumes "one_call w" and "\<not> isLoading (ui w)"
  shows "one_call (handleSend w q sel t p)"
  using assms
  by (auto simp: one_call_def handleSend_def send_failed_def Let_def split: sum.splits)

lemma resume_one_call:
  assumes "one_call w" and "i < length (calls w)"
  shows "one_call (resume w i fetched t)"
  using assms
  by (auto simp: one_call_def resume_def send_failed_def Let_def split: sum.splits if_splits)

lemma handleNewSession_one_call: "one_call w \<Longrightarrow> one_call (handleNewSession w ok t)"
  by (auto simp: one_call_def handleNewSession_def Let_def split: prod.splits sum.splits)

lemma step_one_call: "one_call w \<Longrightarrow> one_call (step w ev)"
proof (cases ev)
  case (KeyDown k shift t p)
  assume "one_call w"
  then show ?thesis
    using KeyDown handleSend_one_call [of w] by (simp add: step_def)
next
  case (ClickSend t p)
  assume "one_call w"
  then show ?thesis
    using ClickSend handleSend_one_call [of w] by (simp add: step_def)
next
  case (Settled i fetched t)
  assume "one_call w"
  then show ?thesis
    using Settled resume_one_call [of w i] by (simp add: step_def)
next
  case (ClickNewSession ok t)
  assume "one_call w"
  then show ?thesis
    using ClickNewSession handleNewSession_one_call [of w] by (simp add: step_def)
qed (auto simp: step_def one_call_def handleClearHistory_def handleSelection_def Let_def)

lemma run_one_call: "one_call w \<Longrightarrow> one_call (run w evs)"
  unfolding run_def
  by (induction evs arbitrary: w) (simp_all add: step_one_call)

lemma mount_one_call: "one_call (mount hs st base rnd i t)"
  by (auto simp: one_call_def mount_def initial_widget_def Let_def
        split: prod.splits sum.splits jsval.splits)

text \<open>
  Claim C2. In every state that the mounted component reaches, at most one call is
  suspended at its \<open>await\<close>; and while one is, a click on the send button and a key press
  in the textarea leave the whole state as it is: no call is added, no message is
  added, and nothing of the attempt is kept for later. (\<open>handleSend\<close> itself does not
  test \<open>isLoading\<close>; what stops the second send is that both controls are disabled while
  \<open>isLoading\<close>.)
\<close>

theorem C2_single_flight:
  "length (calls (run (mount hs st base rnd i t0) evs)) \<le> 1
   \<and> (calls (run (mount hs st base rnd i t0) evs) \<noteq> [] \<longrightarrow>
        step (run (mount hs st base rnd i t0) evs) (ClickSend t p) = run (mount hs st base rnd i t0) evs
        \<and> step (run (mount hs st base rnd i t0) evs) (KeyDown k shift t p) = run (mount hs st base rnd i t0) evs)"
proof -
  have "one_call (run (mount hs st base rnd i t0) evs)"
    by (rule run_one_call) (rule mount_one_call)
  then show ?thesis
    by (auto simp: one_call_def step_def split: if_splits)
qed

theorem C2_witness:
  "length (calls asking) = 1
   \<and> step asking (ClickSend 1700000001500 ''/docs/intro'') = asking
   \<and> step asking (KeyDown ''Enter'' False 1700000001500 ''/docs/intro'') = asking"
proof -
  have "calls asking \<noteq> []" and "length (calls asking) = 1"
    by (simp_all add: asking_eq)
  then show ?thesis
    using C2_single_flight [of strict empty_browser "''http://localhost:8000''" counting 0 1700000000000
        "[ClickOpen, ChangeInput ''What is ROS 2?'', ClickSend 1700000001000 ''/docs/intro'']"
        1700000001500 "''/docs/intro''" "''Enter''" False]
    by (simp add: asking_def)
qed

section \<open>ChatWidget: a failed send\<close>

lemma handleSend_store [simp]: "store (handleSend w q sel t p) = store w"
  by (simp add: handleSend_def Let_def split: sum.splits)




section \<open>ChatWidget: what the message list and the stored conversation go through\<close>





























section \<open>Clearing the conversation\<close>





section \<open>ChatAPI: the classification of a response that is not a success\<close>

lemma rate_limited:
  assumes "status r = 429"
  shows "read_response r =
           Inl (Thrown Error (''Rate limited. Please try again in ''
                  @ (case retry_after r of None \<Rightarrow> ''60'' | Some h \<Rightarrow> if h = [] then ''60'' else h)
                  @ '' seconds.''))"
  using assms by (simp add: read_response_def response_ok_def)

lemma rate_limited_examples:
  "read_response \<lparr>status = 429, retry_after = Some ''30'', body = b\<rparr> =
     Inl (Thrown Error ''Rate limited. Please try again in 30 seconds.'')"
  "read_response \<lparr>status = 429, retry_after = None, body = b\<rparr> =
     Inl (Thrown Error ''Rate limited. Please try again in 60 seconds.'')"
  by (simp_all add: rate_limited)

text \<open>Any other status that is not a success: what the body gives for \<open>error.detail\<close>
  decides. A body that is not JSON counts as \<open>{}\<close>; reading \<open>detail\<close> of the JSON text \<open>null\<close>
  throws; a \<open>detail\<close> that is truthy becomes the message, unless its conversion to a string
  throws.\<close>

lemma other_failure:
  assumes "\<not> response_ok r" and "status r \<noteq> 429"
  shows "read_response r =
           (case body r of
              Raw s \<Rightarrow> Inl (Thrown Error (''API error: '' @ show_nat (status r)))
            | Json v \<Rightarrow>
                (case get_prop v ''detail'' of
                   Inl e \<Rightarrow> Inl e
                 | Inr detail \<Rightarrow>
                     if truthy detail then
                       (case js_string detail of
                          Inl e \<Rightarrow> Inl e
                        | Inr message \<Rightarrow> Inl (Thrown Error message))
                     else Inl (Thrown Error (''API error: '' @ show_nat (status r)))))"
  using assms by (cases "body r") (simp_all add: read_response_def)

text \<open>\<open>query\<close> and \<open>querySelection\<close> call \<open>fetch\<close> once, whatever it answers.\<close>

lemma one_fetch:
  "fst (query net base question sessionId pageContext) =
     [query_request base question sessionId pageContext]"
  "fst (querySelection net base selected question sessionId chapter section) =
     [selection_request base selected question sessionId chapter section]"
  by (simp_all add: query_def querySelection_def Let_def)

text \<open>
  Claim C3 at a response with status 500 whose body is the JSON text \<open>null\<close>: \<open>response.json()\<close>
  resolves to \<open>null\<close>, reading \<open>error.detail\<close> throws, and the call fails with that
  \<open>TypeError\<close>, not with the message \<open>API error: 500\<close>.
\<close>

theorem C3_null_body:
  "query (\<lambda>rq. Inr \<lparr>status = 500, retry_after = None, body = Json JNull\<rparr>)
     ''http://localhost:8000'' ''What is ROS 2?'' (JStr ''s-1'') (JStr ''/docs/intro'') =
     ([query_request ''http://localhost:8000'' ''What is ROS 2?'' (JStr ''s-1'') (JStr ''/docs/intro'')],
      Inl (Thrown TypeError ''Cannot read properties of null (reading detail)''))
   \<and> querySelection (\<lambda>rq. Inr \<lparr>status = 500, retry_after = None, body = Json JNull\<rparr>)
     ''http://localhost:8000'' ''F=ma'' ''explain this'' (JStr ''s-1'') ''mechanics'' JUndefined =
     ([selection_request ''http://localhost:8000'' ''F=ma'' ''explain this'' (JStr ''s-1'')
         ''mechanics'' JUndefined],
      Inl (Thrown TypeError ''Cannot read properties of null (reading detail)''))"
  by (simp add: query_def querySelection_def settle_def read_response_def response_ok_def)

end
